theory Spec2Isabelle
  imports Complex_Main
begin

section \<open>JavaScript numbers and strings\<close>

text \<open>
  The server keeps ids and savings as JavaScript numbers, that is binary64 values. A
  number is modelled by its special values and, when finite, by the rational it denotes;
  every operation rounds its exact result to the nearest binary64 value, ties to even,
  as IEEE 754 does. The two zeros are one value: the program never tells them apart
  (\<open>-0 || 0\<close> is 0, \<open>-0 === 0\<close>, and both are written \<open>0\<close> in JSON).

  A string is the list of the bytes of its UTF-8 form, the form in which the server
  reads it from the two files and from the query.
\<close>

datatype jsnum = Num rat | PosInf | NegInf | NaN

text \<open>The number of binary digits of a positive integer.\<close>

function bit_length :: "int \<Rightarrow> int" where
  "bit_length n = (if n \<le> 0 then 0 else 1 + bit_length (n div 2))"
  by pat_completeness auto
termination
  by (relation "measure nat") auto

declare bit_length.simps [simp del]

definition pow2 :: "int \<Rightarrow> rat" where
  "pow2 k = (if 0 \<le> k then 2 ^ nat k else 1 / 2 ^ nat (- k))"

text \<open>The exponent \<open>e\<close> with \<open>2 ^ e \<le> a < 2 ^ (e + 1)\<close>, for a positive rational.\<close>

definition floor_log2 :: "rat \<Rightarrow> int" where
  "floor_log2 a =
     (case quotient_of a of
        (p, d) \<Rightarrow> (let e0 = bit_length p - bit_length d in if pow2 e0 \<le> a then e0 else e0 - 1))"

definition round_half_even :: "rat \<Rightarrow> int" where
  "round_half_even x =
     (let f = \<lfloor>x\<rfloor>; r = x - of_int f in
      if r < 1 / 2 then f else if 1 / 2 < r then f + 1 else if even f then f else f + 1)"

text \<open>
  The binary64 value of a rational: 53 significant bits, exponents from -1022 (below it
  the spacing stays \<open>2 ^ -1074\<close>) to 1023, and an infinity when the rounded value
  reaches \<open>2 ^ 1024\<close>.
\<close>

definition round64 :: "rat \<Rightarrow> jsnum" where
  "round64 q =
     (if q = 0 then Num 0
      else
        (let a = \<bar>q\<bar>;
             e = floor_log2 a;
             ex = max e (- 1022) - 52;
             n = round_half_even (a / pow2 ex);
             top = (if n = 9007199254740992 then e + 1 else e)
         in if 1024 \<le> top then (if q < 0 then NegInf else PosInf)
            else Num ((if q < 0 then - 1 else 1) * of_int n * pow2 ex)))"

text \<open>\<open>a + b\<close> on numbers.\<close>

fun js_add :: "jsnum \<Rightarrow> jsnum \<Rightarrow> jsnum" where
  "js_add (Num a) (Num b) = round64 (a + b)"
| "js_add (Num a) PosInf = PosInf"
| "js_add (Num a) NegInf = NegInf"
| "js_add (Num a) NaN = NaN"
| "js_add PosInf (Num b) = PosInf"
| "js_add PosInf PosInf = PosInf"
| "js_add PosInf NegInf = NaN"
| "js_add PosInf NaN = NaN"
| "js_add NegInf (Num b) = NegInf"
| "js_add NegInf PosInf = NaN"
| "js_add NegInf NegInf = NegInf"
| "js_add NegInf NaN = NaN"
| "js_add NaN b = NaN"

text \<open>\<open>a / 1000\<close>.\<close>

fun div1000 :: "jsnum \<Rightarrow> jsnum" where
  "div1000 (Num a) = round64 (a / 1000)"
| "div1000 PosInf = PosInf"
| "div1000 NegInf = NegInf"
| "div1000 NaN = NaN"

text \<open>\<open>a || 0\<close>: the falsy numbers are \<open>NaN\<close> and zero.\<close>

fun or0 :: "jsnum \<Rightarrow> jsnum" where
  "or0 NaN = Num 0"
| "or0 (Num a) = (if a = 0 then Num 0 else Num a)"
| "or0 PosInf = PosInf"
| "or0 NegInf = NegInf"

text \<open>\<open>a === b\<close> on numbers: \<open>NaN\<close> equals nothing, itself included.\<close>

definition strict_eq :: "jsnum \<Rightarrow> jsnum \<Rightarrow> bool" where
  "strict_eq a b = (a \<noteq> NaN \<and> b \<noteq> NaN \<and> a = b)"

text \<open>
  The white space that \<open>trim\<close>, \<open>parseInt\<close> and \<open>parseFloat\<close> skip, each
  character in UTF-8: TAB, LF, VT, FF, CR, SP, U+00A0, U+1680, U+2000 to U+200A, U+2028,
  U+2029, U+202F, U+205F, U+3000 and U+FEFF.
\<close>

definition ws_chars :: "string list" where
  "ws_chars =
     [[CHR 0x09], [CHR 0x0A], [CHR 0x0B], [CHR 0x0C], [CHR 0x0D], [CHR 0x20],
      [CHR 0xC2, CHR 0xA0],
      [CHR 0xE1, CHR 0x9A, CHR 0x80],
      [CHR 0xE2, CHR 0x80, CHR 0x80], [CHR 0xE2, CHR 0x80, CHR 0x81],
      [CHR 0xE2, CHR 0x80, CHR 0x82], [CHR 0xE2, CHR 0x80, CHR 0x83],
      [CHR 0xE2, CHR 0x80, CHR 0x84], [CHR 0xE2, CHR 0x80, CHR 0x85],
      [CHR 0xE2, CHR 0x80, CHR 0x86], [CHR 0xE2, CHR 0x80, CHR 0x87],
      [CHR 0xE2, CHR 0x80, CHR 0x88], [CHR 0xE2, CHR 0x80, CHR 0x89],
      [CHR 0xE2, CHR 0x80, CHR 0x8A],
      [CHR 0xE2, CHR 0x80, CHR 0xA8], [CHR 0xE2, CHR 0x80, CHR 0xA9],
      [CHR 0xE2, CHR 0x80, CHR 0xAF],
      [CHR 0xE2, CHR 0x81, CHR 0x9F],
      [CHR 0xE3, CHR 0x80, CHR 0x80],
      [CHR 0xEF, CHR 0xBB, CHR 0xBF]]"

definition ws_char :: "string \<Rightarrow> bool" where
  "ws_char cs = (cs \<in> set ws_chars)"

text \<open>The length in bytes of the white-space character at the head of a string, or 0.\<close>

definition ws_len :: "string \<Rightarrow> nat" where
  "ws_len s =
     (if ws_char (take 1 s) then 1 else if ws_char (take 2 s) then 2
      else if ws_char (take 3 s) then 3 else 0)"

text \<open>The same at the end of a string.\<close>

definition ws_len_end :: "string \<Rightarrow> nat" where
  "ws_len_end s =
     (if ws_char (drop (length s - 1) s) then 1 else if ws_char (drop (length s - 2) s) then 2
      else if ws_char (drop (length s - 3) s) then 3 else 0)"

fun skip_ws :: "string \<Rightarrow> string" where
  "skip_ws [] = []"
| "skip_ws (c # cs) =
     (if ws_len (c # cs) = 0 then c # cs else skip_ws (drop (ws_len (c # cs)) (c # cs)))"

fun skip_ws_end :: "string \<Rightarrow> string" where
  "skip_ws_end [] = []"
| "skip_ws_end (c # cs) =
     (if ws_len_end (c # cs) = 0 then c # cs
      else skip_ws_end (take (length (c # cs) - ws_len_end (c # cs)) (c # cs)))"

declare skip_ws.simps [simp del] skip_ws_end.simps [simp del]

definition is_digit :: "char \<Rightarrow> bool" where
  "is_digit c = (48 \<le> (of_char c :: int) \<and> (of_char c :: int) \<le> 57)"

text \<open>The value of a character as a digit of \<open>parseInt\<close>; 36 when it is none.\<close>

definition digit_val :: "char \<Rightarrow> int" where
  "digit_val c =
     (let n = (of_char c :: int) in
      if 48 \<le> n \<and> n \<le> 57 then n - 48
      else if 97 \<le> n \<and> n \<le> 122 then n - 87
      else if 65 \<le> n \<and> n \<le> 90 then n - 55
      else 36)"

text \<open>The value of a digit string in a radix, most significant digit first.\<close>

definition digits_value :: "int \<Rightarrow> string \<Rightarrow> int" where
  "digits_value radix ds = foldl (\<lambda>acc c. acc * radix + digit_val c) 0 ds"

text \<open>\<open>s.trim()\<close>.\<close>

definition js_trim :: "string \<Rightarrow> string" where
  "js_trim s = skip_ws_end (skip_ws s)"

text \<open>\<open>s.replace(/^"|"$/g, "")\<close>: one quote off the front, then one off the end.\<close>

definition strip_quotes :: "string \<Rightarrow> string" where
  "strip_quotes s =
     (let s1 = (case s of [] \<Rightarrow> [] | c # r \<Rightarrow> if c = CHR 0x22 then r else s)
      in if s1 \<noteq> [] \<and> last s1 = CHR 0x22 then butlast s1 else s1)"

text \<open>
  \<open>parseInt(s)\<close> with no radix: leading white space and one sign are skipped, a
  \<open>0x\<close> or \<open>0X\<close> prefix selects radix 16, and the longest prefix of digits is read;
  with no digit the result is \<open>NaN\<close>. The integer read is rounded to binary64, every
  digit counted.
\<close>

definition parseInt :: "string \<Rightarrow> jsnum" where
  "parseInt str =
     (let s = skip_ws str;
          neg = (case s of [] \<Rightarrow> False | c # _ \<Rightarrow> c = CHR ''-'');
          s1 = (case s of [] \<Rightarrow> [] | c # r \<Rightarrow> if c = CHR ''-'' \<or> c = CHR ''+'' then r else s);
          hex = (case s1 of a # b # _ \<Rightarrow> a = CHR ''0'' \<and> (b = CHR ''x'' \<or> b = CHR ''X'') | _ \<Rightarrow> False);
          radix = (if hex then 16 else 10);
          s2 = (if hex then drop 2 s1 else s1);
          ds = takeWhile (\<lambda>c. digit_val c < radix) s2
      in if ds = [] then NaN
         else round64 (of_int ((if neg then - 1 else 1) * digits_value radix ds)))"

text \<open>
  \<open>parseFloat(s)\<close>: leading white space is skipped and the longest prefix that is a
  decimal literal is read: a sign, then \<open>Infinity\<close>, or digits with an optional
  fraction and an optional exponent (kept only when it has a digit). The decimal value
  read is rounded to binary64, every digit counted.
\<close>

definition parse_exponent :: "string \<Rightarrow> int" where
  "parse_exponent s =
     (case s of
        [] \<Rightarrow> 0
      | e # r \<Rightarrow>
          if e = CHR ''e'' \<or> e = CHR ''E'' then
            (let eneg = (case r of [] \<Rightarrow> False | c # _ \<Rightarrow> c = CHR ''-'');
                 r1 = (case r of [] \<Rightarrow> [] | c # t \<Rightarrow> if c = CHR ''-'' \<or> c = CHR ''+'' then t else r);
                 ds = takeWhile is_digit r1
             in if ds = [] then 0
                else (if eneg then - 1 else 1) * digits_value 10 ds)
          else 0)"

definition pow10 :: "int \<Rightarrow> rat" where
  "pow10 k = (if 0 \<le> k then 10 ^ nat k else 1 / 10 ^ nat (- k))"

definition parseFloat :: "string \<Rightarrow> jsnum" where
  "parseFloat str =
     (let s = skip_ws str;
          neg = (case s of [] \<Rightarrow> False | c # _ \<Rightarrow> c = CHR ''-'');
          s1 = (case s of [] \<Rightarrow> [] | c # r \<Rightarrow> if c = CHR ''-'' \<or> c = CHR ''+'' then r else s)
      in if take 8 s1 = ''Infinity'' then (if neg then NegInf else PosInf)
         else
           (let ip = takeWhile is_digit s1;
                r1 = dropWhile is_digit s1;
                dot = (case r1 of [] \<Rightarrow> False | c # _ \<Rightarrow> c = CHR ''.'');
                fp = (if dot then takeWhile is_digit (tl r1) else []);
                r2 = (if dot then dropWhile is_digit (tl r1) else r1)
            in if ip = [] \<and> fp = [] then NaN
               else
                 (let mant = of_int (digits_value 10 (ip @ fp)) :: rat;
                      ex = parse_exponent r2 - int (length fp);
                      v = mant * pow10 ex
                  in round64 (if neg then - v else v))))"

section \<open>The store: \<open>loadData\<close>\<close>

text \<open>
  A device as \<open>loadData\<close> builds it (fields \<open>id\<close>, \<open>name\<close>, \<open>timezone\<close>), and a
  savings row as the CSV parser assembles it from the transformed fields.
\<close>

record device =
  dev_id :: jsnum
  dev_name :: string
  dev_timezone :: string

record savings_item =
  device_id :: jsnum
  device_timestamp :: string
  carbon_saved :: jsnum
  fueld_saved :: jsnum

datatype jsval = JNum jsnum | JStr string

text \<open>The \<open>transform\<close> callback of the savings file, applied to every field with its header.\<close>

definition transform_savings :: "string \<Rightarrow> string \<Rightarrow> jsval" where
  "transform_savings v header =
     (let v1 = strip_quotes (js_trim v) in
      if header = ''device_id'' then JNum (parseInt v1)
      else if header = ''carbon_saved'' \<or> header = ''fueld_saved'' then JNum (or0 (parseFloat v1))
      else JStr v1)"

text \<open>The \<open>transform\<close> callback of the devices file.\<close>

definition transform_devices :: "string \<Rightarrow> string" where
  "transform_devices v = strip_quotes (js_trim v)"

fun num_of :: "jsval \<Rightarrow> jsnum" where
  "num_of (JNum n) = n"
| "num_of (JStr s) = NaN"

fun str_of :: "jsval \<Rightarrow> string" where
  "str_of (JStr s) = s"
| "str_of (JNum n) = []"

text \<open>
  One row of \<open>device-saving.csv\<close> with its four columns \<open>device_id\<close>,
  \<open>device_timestamp\<close>, \<open>carbon_saved\<close>, \<open>fueld_saved\<close>.
\<close>

fun savings_row :: "string \<times> string \<times> string \<times> string \<Rightarrow> savings_item" where
  "savings_row (a, b, c, d) =
     \<lparr> device_id = num_of (transform_savings a ''device_id''),
       device_timestamp = str_of (transform_savings b ''device_timestamp''),
       carbon_saved = num_of (transform_savings c ''carbon_saved''),
       fueld_saved = num_of (transform_savings d ''fueld_saved'') \<rparr>"

declare savings_row.simps [simp del]

definition load_savings :: "(string \<times> string \<times> string \<times> string) list \<Rightarrow> savings_item list" where
  "load_savings rows = map savings_row rows"

section \<open>The date library\<close>

text \<open>
  The handler reaches dates only through the calls below of the date library and of its
  timezone add-on, which are not part of this repository: they are a parameter of the
  model. A date object is its instant, in milliseconds since the epoch, or \<open>None\<close> when
  \<open>isValid()\<close> is false; the mode of a date object (server-local time, or a named
  zone) is passed to the calls that read calendar fields.
\<close>

datatype zmode = Local | Zone string

record moment_lib =
  tz_zone :: "string \<Rightarrow> bool"
    \<comment> \<open>\<open>moment.tz.zone(name)\<close> is not null\<close>
  tz_create :: "string \<Rightarrow> string \<Rightarrow> int option"
    \<comment> \<open>\<open>moment.tz(input, zone)\<close>\<close>
  create_iso_strict :: "string \<Rightarrow> int option"
    \<comment> \<open>\<open>moment(input, moment.ISO_8601, true)\<close>\<close>
  create_local :: "string \<Rightarrow> int option"
    \<comment> \<open>\<open>moment(input)\<close>\<close>
  create_utc :: "string \<Rightarrow> int option"
    \<comment> \<open>\<open>moment.utc(input)\<close>\<close>
  startOf_month :: "zmode \<Rightarrow> int \<Rightarrow> int"
    \<comment> \<open>\<open>.startOf("month")\<close> of a valid date in the given mode\<close>
  format_YYYY_MM :: "zmode \<Rightarrow> int \<Rightarrow> string"
    \<comment> \<open>\<open>.format("YYYY-MM")\<close> of a valid date in the given mode\<close>

text \<open>\<open>d.isBetween(from, to, null, "[]")\<close>: false on an invalid date, both ends included.\<close>

definition isBetween_incl :: "int option \<Rightarrow> int \<Rightarrow> int \<Rightarrow> bool" where
  "isBetween_incl d lo hi = (case d of None \<Rightarrow> False | Some t \<Rightarrow> \<not> t < lo \<and> \<not> hi < t)"

subsection \<open>Devices\<close>

text \<open>
  One row of \<open>devices.csv\<close> with its three columns \<open>id\<close>, \<open>name\<close>, \<open>timezone\<close>,
  each field first passed through the \<open>transform\<close> callback; the timezone is resolved by
  the conditional on \<open>moment.tz.zone\<close>.
\<close>

fun device_row :: "moment_lib \<Rightarrow> string \<times> string \<times> string \<Rightarrow> device" where
  "device_row M (i, n, z) =
     \<lparr> dev_id = parseInt (transform_devices i),
       dev_name = transform_devices n,
       dev_timezone =
         (if tz_zone M (transform_devices z) then transform_devices z else ''Asia/Kolkata'') \<rparr>"

declare device_row.simps [simp del]

definition load_devices :: "moment_lib \<Rightarrow> (string \<times> string \<times> string) list \<Rightarrow> device list" where
  "load_devices M rows = map (device_row M) rows"

section \<open>The handler of \<open>GET /api/savings\<close>\<close>

record query =
  deviceId :: "string option"
  startDateTime :: "string option"
  endDateTime :: "string option"

text \<open>\<open>!p\<close> for a query parameter: it is absent, or the empty string.\<close>

definition missing :: "string option \<Rightarrow> bool" where
  "missing p = (case p of None \<Rightarrow> True | Some s \<Rightarrow> s = [])"

record out_item = savings_item +
  timestamp :: string

record totals =
  totalCarbon :: jsnum
  totalFuel :: jsnum
  monthlyCarbon :: jsnum
  monthlyFuel :: jsnum
  lastMonth :: string

datatype body = ErrorBody string | SavingsBody "out_item list" totals

record response =
  status :: nat
  body :: body

datatype js_error = TypeError string

text \<open>\<open>devices.find((d) => d.id === parseInt(deviceId))\<close>.\<close>

definition find_device :: "device list \<Rightarrow> string \<Rightarrow> device option" where
  "find_device devices did = find (\<lambda>d. strict_eq (dev_id d) (parseInt did)) devices"

text \<open>
  The date of a record in the range filter: the strict ISO-8601 parse, else the lenient
  parse, else the UTC parse.
\<close>

definition itemDate_of :: "moment_lib \<Rightarrow> string \<Rightarrow> int option" where
  "itemDate_of M ts =
     (let d0 = create_iso_strict M ts;
          d1 = (if d0 = None then create_local M ts else d0);
          d2 = (if d1 = None then create_utc M ts else d1)
      in d2)"

text \<open>
  The callback of the first \<open>filter\<close>. The calls of the library answer an invalid date
  and do not throw, so the \<open>catch\<close> branch of its \<open>try\<close> is not a branch of the model.
\<close>

definition in_range_item :: "moment_lib \<Rightarrow> jsnum \<Rightarrow> int \<Rightarrow> int \<Rightarrow> savings_item \<Rightarrow> bool" where
  "in_range_item M pid startM endM item =
     (if \<not> strict_eq (device_id item) pid then False
      else isBetween_incl (itemDate_of M (device_timestamp item)) startM endM)"

text \<open>The callback of the \<open>map\<close>: the item with its \<open>timestamp\<close> field added.\<close>

definition with_timestamp :: "savings_item \<Rightarrow> out_item" where
  "with_timestamp item =
     \<lparr> device_id = device_id item, device_timestamp = device_timestamp item,
       carbon_saved = carbon_saved item, fueld_saved = fueld_saved item,
       timestamp = device_timestamp item \<rparr>"

definition filteredData :: "moment_lib \<Rightarrow> savings_item list \<Rightarrow> string \<Rightarrow> int \<Rightarrow> int \<Rightarrow> out_item list" where
  "filteredData M savingsData did startM endM =
     map with_timestamp (filter (in_range_item M (parseInt did) startM endM) savingsData)"

text \<open>The two \<open>reduce\<close> calls.\<close>

definition reduce_carbon :: "out_item list \<Rightarrow> jsnum" where
  "reduce_carbon items = foldl (\<lambda>sum item. js_add sum (or0 (carbon_saved item))) (Num 0) items"

definition reduce_fuel :: "out_item list \<Rightarrow> jsnum" where
  "reduce_fuel items = foldl (\<lambda>sum item. js_add sum (or0 (fueld_saved item))) (Num 0) items"

text \<open>
  The second \<open>filter\<close>. Its \<open>itemDate\<close> is declared \<open>const\<close>: when the strict parse
  is invalid the assignment in the \<open>if\<close> throws a \<open>TypeError\<close>, outside any
  \<open>try\<close>. \<open>startOf("month")\<close> changes \<open>itemDate\<close> in place, so the comparison with
  the end of the range reads the start of the month.
\<close>

fun lastMonthData :: "moment_lib \<Rightarrow> string \<Rightarrow> int \<Rightarrow> out_item list \<Rightarrow> js_error + out_item list" where
  "lastMonthData M lastMonthStr endM [] = Inr []"
| "lastMonthData M lastMonthStr endM (item # rest) =
     (case create_iso_strict M (device_timestamp item) of
        None \<Rightarrow> Inl (TypeError ''Assignment to constant variable.'')
      | Some t \<Rightarrow>
          (let itemDate = startOf_month M Local t;
               itemMonth = format_YYYY_MM M Local itemDate;
               keep = (itemMonth = lastMonthStr \<and> itemDate \<le> endM)
           in case lastMonthData M lastMonthStr endM rest of
                Inl e \<Rightarrow> Inl e
              | Inr kept \<Rightarrow> Inr (if keep then item # kept else kept)))"

text \<open>
  The handler, with the two collections that \<open>loadData\<close> filled as arguments. It answers
  a response, or an exception leaves it (\<open>Inl\<close>): the framework then answers the request
  with status 500 and none of the handler's bodies.
\<close>

definition savings_handler ::
  "moment_lib \<Rightarrow> device list \<Rightarrow> savings_item list \<Rightarrow> query \<Rightarrow> js_error + response" where
  "savings_handler M devices savingsData q =
     (if missing (deviceId q) \<or> missing (startDateTime q) \<or> missing (endDateTime q) then
        Inr \<lparr> status = 400,
              body = ErrorBody ''deviceId, startDateTime, and endDateTime are required'' \<rparr>
      else
        (let did = the (deviceId q); sdt = the (startDateTime q); edt = the (endDateTime q) in
         case find_device devices did of
           None \<Rightarrow> Inr \<lparr> status = 404, body = ErrorBody ''Device not found'' \<rparr>
         | Some dev \<Rightarrow>
             (case (tz_create M sdt (dev_timezone dev), tz_create M edt (dev_timezone dev)) of
                (Some startM, Some endM) \<Rightarrow>
                  (let data = filteredData M savingsData did startM endM;
                       tCarbon = div1000 (reduce_carbon data);
                       tFuel = reduce_fuel data;
                       lastMonthM = startOf_month M (Zone (dev_timezone dev)) endM;
                       lastMonthStr = format_YYYY_MM M (Zone (dev_timezone dev)) lastMonthM
                   in case lastMonthData M lastMonthStr endM data of
                        Inl e \<Rightarrow> Inl e
                      | Inr monthData \<Rightarrow>
                          Inr \<lparr> status = 200,
                                body = SavingsBody data
                                  \<lparr> totalCarbon = tCarbon, totalFuel = tFuel,
                                    monthlyCarbon =
                                      (if length monthData > 0 then div1000 (reduce_carbon monthData)
                                       else Num 0),
                                    monthlyFuel =
                                      (if length monthData > 0 then reduce_fuel monthData
                                       else Num 0),
                                    lastMonth = lastMonthStr \<rparr> \<rparr>)
              | _ \<Rightarrow>
                  Inr \<lparr> status = 400,
                        body = ErrorBody ''Invalid startDateTime or endDateTime format'' \<rparr>)))"

section \<open>A reference instance of the date library\<close>

text \<open>
  An executable instance of the interface, for concrete inputs: the proleptic Gregorian
  calendar, zones of one fixed offset from UTC (named exactly), and two input formats:
  the extended ISO-8601 calendar date with an optional time \<open>HH:mm\<close>,
  \<open>HH:mm:ss\<close> or \<open>HH:mm:ss.S...\<close> and an optional offset \<open>Z\<close>,
  \<open>+HH:mm\<close>, \<open>+HHmm\<close> or \<open>+HH\<close>; and, for the lenient parse only, the
  RFC 2822 form \<open>D Mon YYYY HH:mm[:ss] +HHmm\<close>. Any other string is invalid here.
  The offset of the server's local time, in minutes east of UTC, is its parameter.
\<close>

definition days_from_civil :: "int \<Rightarrow> int \<Rightarrow> int \<Rightarrow> int" where
  "days_from_civil y m d =
     (let y1 = (if m \<le> 2 then y - 1 else y);
          era = y1 div 400;
          yoe = y1 - era * 400;
          doy = (153 * (if m > 2 then m - 3 else m + 9) + 2) div 5 + d - 1;
          doe = yoe * 365 + yoe div 4 - yoe div 100 + doy
      in era * 146097 + doe - 719468)"

definition civil_from_days :: "int \<Rightarrow> int \<times> int \<times> int" where
  "civil_from_days z =
     (let z1 = z + 719468;
          era = z1 div 146097;
          doe = z1 - era * 146097;
          yoe = (doe - doe div 1460 + doe div 36524 - doe div 146096) div 365;
          doy = doe - (365 * yoe + yoe div 4 - yoe div 100);
          mp = (5 * doy + 2) div 153;
          d = doy - (153 * mp + 2) div 5 + 1;
          m = (if mp < 10 then mp + 3 else mp - 9);
          y = yoe + era * 400
      in (if m \<le> 2 then y + 1 else y, m, d))"

definition days_in_month :: "int \<Rightarrow> int \<Rightarrow> int" where
  "days_in_month y m =
     (if m = 2 then (if y mod 4 = 0 \<and> (y mod 100 \<noteq> 0 \<or> y mod 400 = 0) then 29 else 28)
      else if m = 4 \<or> m = 6 \<or> m = 9 \<or> m = 11 then 30 else 31)"

definition all_digits :: "string \<Rightarrow> bool" where
  "all_digits s = (s \<noteq> [] \<and> list_all is_digit s)"

definition dec :: "string \<Rightarrow> int" where
  "dec s = digits_value 10 s"

text \<open>Milliseconds from the epoch to midnight of a valid calendar date.\<close>

definition civil_ms :: "int \<Rightarrow> int \<Rightarrow> int \<Rightarrow> int option" where
  "civil_ms y m d =
     (if 1 \<le> m \<and> m \<le> 12 \<and> 1 \<le> d \<and> d \<le> days_in_month y m
      then Some (days_from_civil y m d * 86400000) else None)"

text \<open>\<open>YYYY-MM-DD\<close>.\<close>

definition parse_ymd :: "string \<Rightarrow> int option" where
  "parse_ymd s =
     (if length s = 10 \<and> s ! 4 = CHR ''-'' \<and> s ! 7 = CHR ''-''
         \<and> all_digits (take 4 s) \<and> all_digits (take 2 (drop 5 s)) \<and> all_digits (drop 8 s)
      then civil_ms (dec (take 4 s)) (dec (take 2 (drop 5 s))) (dec (drop 8 s))
      else None)"

text \<open>\<open>HH:mm\<close>, \<open>HH:mm:ss\<close> or \<open>HH:mm:ss.S...\<close>, as milliseconds of the day.\<close>

definition parse_hms :: "string \<Rightarrow> int option" where
  "parse_hms s =
     (if 5 \<le> length s \<and> all_digits (take 2 s) \<and> s ! 2 = CHR '':'' \<and> all_digits (take 2 (drop 3 s))
      then
        (let h = dec (take 2 s); mi = dec (take 2 (drop 3 s)); r = drop 5 s in
         if h > 23 \<or> mi > 59 then None
         else if r = [] then Some (h * 3600000 + mi * 60000)
         else if 3 \<le> length r \<and> r ! 0 = CHR '':'' \<and> all_digits (take 2 (drop 1 r))
         then
           (let sec = dec (take 2 (drop 1 r)); f = drop 3 r in
            if sec > 59 then None
            else if f = [] then Some (h * 3600000 + mi * 60000 + sec * 1000)
            else if 2 \<le> length f \<and> f ! 0 = CHR ''.'' \<and> all_digits (drop 1 f)
            then Some (h * 3600000 + mi * 60000 + sec * 1000 + dec (take 3 (drop 1 f @ ''00'')))
            else None)
         else None)
      else None)"

text \<open>
  An offset, in minutes east of UTC: \<open>Some None\<close> when the string is empty, \<open>None\<close> when
  it is not an offset.
\<close>

definition parse_offset :: "string \<Rightarrow> int option option" where
  "parse_offset s =
     (if s = [] then Some None
      else if s = ''Z'' then Some (Some 0)
      else if s ! 0 = CHR ''+'' \<or> s ! 0 = CHR ''-'' then
        (let sg = (if s ! 0 = CHR ''-'' then - 1 else 1); r = drop 1 s in
         if length r = 5 \<and> r ! 2 = CHR '':'' \<and> all_digits (take 2 r) \<and> all_digits (drop 3 r)
         then Some (Some (sg * (dec (take 2 r) * 60 + dec (drop 3 r))))
         else if length r = 4 \<and> all_digits r
         then Some (Some (sg * (dec (take 2 r) * 60 + dec (drop 2 r))))
         else if length r = 2 \<and> all_digits r
         then Some (Some (sg * (dec r * 60)))
         else None)
      else None)"

definition is_offset_start :: "char \<Rightarrow> bool" where
  "is_offset_start c = (c = CHR ''Z'' \<or> c = CHR ''+'' \<or> c = CHR ''-'')"

text \<open>
  The ISO-8601 parse: the instant of the wall-clock time read at the offset written in
  the string, or at the given default offset when the string has none.
\<close>

definition parse_iso :: "int \<Rightarrow> string \<Rightarrow> int option" where
  "parse_iso default_off s =
     (case parse_ymd (take 10 s) of
        None \<Rightarrow> None
      | Some day \<Rightarrow>
          (let r = drop 10 s in
           if r = [] then Some (day - default_off * 60000)
           else if r ! 0 = CHR ''T'' \<or> r ! 0 = CHR '' '' then
             (let r1 = drop 1 r;
                  tpart = takeWhile (\<lambda>c. \<not> is_offset_start c) r1;
                  opart = dropWhile (\<lambda>c. \<not> is_offset_start c) r1
              in case (parse_hms tpart, parse_offset opart) of
                   (Some t, Some off) \<Rightarrow>
                     Some (day + t - (case off of None \<Rightarrow> default_off | Some m \<Rightarrow> m) * 60000)
                 | _ \<Rightarrow> None)
           else None))"

fun split_words :: "string \<Rightarrow> string \<Rightarrow> string list" where
  "split_words acc [] = [rev acc]"
| "split_words acc (c # cs) =
     (if c = CHR '' '' then rev acc # split_words [] cs else split_words (c # acc) cs)"

definition month_names :: "(string \<times> int) list" where
  "month_names =
     [(''Jan'', 1), (''Feb'', 2), (''Mar'', 3), (''Apr'', 4), (''May'', 5), (''Jun'', 6),
      (''Jul'', 7), (''Aug'', 8), (''Sep'', 9), (''Oct'', 10), (''Nov'', 11), (''Dec'', 12)]"

text \<open>The RFC 2822 parse; the offset is always written in the string.\<close>

definition parse_rfc2822 :: "string \<Rightarrow> int option" where
  "parse_rfc2822 s =
     (case split_words [] s of
        [d, mon, y, t, z] \<Rightarrow>
          (if all_digits d \<and> length d \<le> 2 \<and> all_digits y \<and> length y = 4
              \<and> (length t = 5 \<or> length t = 8) \<and> length z = 5 then
             (case (map_of month_names mon, parse_hms t, parse_offset z) of
                (Some m, Some ms, Some (Some off)) \<Rightarrow>
                  (case civil_ms (dec y) m (dec d) of
                     None \<Rightarrow> None
                   | Some day \<Rightarrow> Some (day + ms - off * 60000))
              | _ \<Rightarrow> None)
           else None)
      | _ \<Rightarrow> None)"

definition zone_table :: "(string \<times> int) list" where
  "zone_table =
     [(''Asia/Kolkata'', 330), (''UTC'', 0), (''Asia/Tokyo'', 540), (''Asia/Dubai'', 240)]"

definition mode_offset :: "int \<Rightarrow> zmode \<Rightarrow> int" where
  "mode_offset server_off mode =
     (case mode of
        Local \<Rightarrow> server_off
      | Zone z \<Rightarrow> (case map_of zone_table z of None \<Rightarrow> 0 | Some off \<Rightarrow> off))"

definition parse_lenient :: "int \<Rightarrow> string \<Rightarrow> int option" where
  "parse_lenient default_off s =
     (case parse_iso default_off s of Some t \<Rightarrow> Some t | None \<Rightarrow> parse_rfc2822 s)"

definition digit_char :: "int \<Rightarrow> char" where
  "digit_char n = char_of (48 + n mod 10)"

definition fixed_startOf_month :: "int \<Rightarrow> int \<Rightarrow> int" where
  "fixed_startOf_month off t =
     (case civil_from_days ((t + off * 60000) div 86400000) of
        (y, m, d) \<Rightarrow> days_from_civil y m 1 * 86400000 - off * 60000)"

definition fixed_format_YYYY_MM :: "int \<Rightarrow> int \<Rightarrow> string" where
  "fixed_format_YYYY_MM off t =
     (case civil_from_days ((t + off * 60000) div 86400000) of
        (y, m, d) \<Rightarrow>
          [digit_char (y div 1000), digit_char (y div 100), digit_char (y div 10), digit_char y,
           CHR ''-'', digit_char (m div 10), digit_char m])"

definition fixed_moment :: "int \<Rightarrow> moment_lib" where
  "fixed_moment server_off =
     \<lparr> tz_zone = (\<lambda>name. map_of zone_table name \<noteq> None),
       tz_create = (\<lambda>input z. parse_lenient (mode_offset server_off (Zone z)) input),
       create_iso_strict = parse_iso server_off,
       create_local = parse_lenient server_off,
       create_utc = parse_lenient 0,
       startOf_month = (\<lambda>mode. fixed_startOf_month (mode_offset server_off mode)),
       format_YYYY_MM = (\<lambda>mode. fixed_format_YYYY_MM (mode_offset server_off mode)) \<rparr>"

section \<open>Vocabulary of the specification\<close>

text \<open>
  A valid query: the three parameters are present, the device is found and both ends of
  the range are valid dates in the device's timezone.
\<close>

definition valid_query :: "moment_lib \<Rightarrow> device list \<Rightarrow> query \<Rightarrow> device \<Rightarrow> int \<Rightarrow> int \<Rightarrow> bool" where
  "valid_query M devices q dev startM endM =
     (\<not> missing (deviceId q) \<and> \<not> missing (startDateTime q) \<and> \<not> missing (endDateTime q)
      \<and> find_device devices (the (deviceId q)) = Some dev
      \<and> tz_create M (the (startDateTime q)) (dev_timezone dev) = Some startM
      \<and> tz_create M (the (endDateTime q)) (dev_timezone dev) = Some endM)"

text \<open>The records and the totals of a 200 answer.\<close>

definition returned_data :: "js_error + response \<Rightarrow> out_item list option" where
  "returned_data r =
     (case r of
        Inl e \<Rightarrow> None
      | Inr resp \<Rightarrow> (case body resp of SavingsBody data tot \<Rightarrow> Some data | ErrorBody m \<Rightarrow> None))"

definition returned_totals :: "js_error + response \<Rightarrow> totals option" where
  "returned_totals r =
     (case r of
        Inl e \<Rightarrow> None
      | Inr resp \<Rightarrow> (case body resp of SavingsBody data tot \<Rightarrow> Some tot | ErrorBody m \<Rightarrow> None))"

text \<open>The sum of a list of numbers, added from the left as \<open>reduce\<close> does.\<close>

definition js_sum :: "jsnum list \<Rightarrow> jsnum" where
  "js_sum xs = foldl js_add (Num 0) xs"

definition finite_nonneg :: "jsnum \<Rightarrow> bool" where
  "finite_nonneg n = (case n of Num a \<Rightarrow> 0 \<le> a | _ \<Rightarrow> False)"

text \<open>
  A \<open>deviceId\<close> with no leading digit: once \<open>parseInt\<close> has skipped the white space and
  one sign, the string is empty or starts with a character that is not a decimal digit.
\<close>

definition no_leading_digit :: "string \<Rightarrow> bool" where
  "no_leading_digit s =
     (case skip_ws s of
        [] \<Rightarrow> True
      | c # r \<Rightarrow>
          if c = CHR ''-'' \<or> c = CHR ''+'' then (case r of [] \<Rightarrow> True | c1 # _ \<Rightarrow> \<not> is_digit c1)
          else \<not> is_digit c)"

text \<open>
  The range test as the specification words it for the records: the timestamp is read in
  the timezone of the queried device.
\<close>

definition spec_in_range :: "moment_lib \<Rightarrow> string \<Rightarrow> int \<Rightarrow> int \<Rightarrow> savings_item \<Rightarrow> bool" where
  "spec_in_range M zone startM endM item =
     isBetween_incl (tz_create M (device_timestamp item) zone) startM endM"

text \<open>
  The monthly subset as the specification words it: the filtered records whose
  normalized timestamp falls in the calendar month, in the device's timezone, that
  contains the end of the range, and is not after that end.
\<close>

definition spec_lastMonthData :: "moment_lib \<Rightarrow> string \<Rightarrow> int \<Rightarrow> out_item list \<Rightarrow> out_item list" where
  "spec_lastMonthData M zone endM data =
     filter (\<lambda>item.
        case itemDate_of M (device_timestamp item) of
          None \<Rightarrow> False
        | Some t \<Rightarrow> format_YYYY_MM M (Zone zone) t = format_YYYY_MM M (Zone zone) endM \<and> t \<le> endM)
       data"

text \<open>
  The test of the second \<open>filter\<close> on a record whose strict parse is valid: the
  year-month of the record in server-local time is \<open>lastMonth\<close>, and the start of that
  month is not after the end of the range.
\<close>

definition keep_month :: "moment_lib \<Rightarrow> string \<Rightarrow> int \<Rightarrow> out_item \<Rightarrow> bool" where
  "keep_month M lastMonthStr endM item =
     (case create_iso_strict M (device_timestamp item) of
        None \<Rightarrow> False
      | Some t \<Rightarrow>
          format_YYYY_MM M Local (startOf_month M Local t) = lastMonthStr
          \<and> startOf_month M Local t \<le> endM)"

text \<open>
  The same test with the record itself, rather than the start of its month, compared
  with the end of the range.
\<close>

definition in_local_month :: "moment_lib \<Rightarrow> string \<Rightarrow> int \<Rightarrow> out_item \<Rightarrow> bool" where
  "in_local_month M lastMonthStr endM item =
     (case create_iso_strict M (device_timestamp item) of
        None \<Rightarrow> False
      | Some t \<Rightarrow> format_YYYY_MM M Local (startOf_month M Local t) = lastMonthStr \<and> t \<le> endM)"

text \<open>
  A record the second \<open>filter\<close> can read: its strict parse is valid, and the start of
  its month is not after the record.
\<close>

definition strict_iso_item :: "moment_lib \<Rightarrow> out_item \<Rightarrow> bool" where
  "strict_iso_item M item =
     (case create_iso_strict M (device_timestamp item) of
        None \<Rightarrow> False
      | Some t \<Rightarrow> startOf_month M Local t \<le> t)"

text \<open>
  ``No leading digits'' read to the letter: the string is empty or its first character is
  not a decimal digit.
\<close>

definition first_char_no_digit :: "string \<Rightarrow> bool" where
  "first_char_no_digit s = (case s of [] \<Rightarrow> True | c # _ \<Rightarrow> \<not> is_digit c)"

text \<open>Every record of a list has a timestamp that the strict ISO-8601 parse accepts.\<close>

definition all_strict_iso :: "moment_lib \<Rightarrow> out_item list \<Rightarrow> bool" where
  "all_strict_iso M items =
     list_all (\<lambda>item. create_iso_strict M (device_timestamp item) \<noteq> None) items"

section \<open>Example data\<close>

text \<open>
  A server whose local time is UTC, two device rows (the second with an id that is not a
  number and a timezone that is not a zone), and the query of June 2023 for device 1.
\<close>

definition ex_moment :: moment_lib where
  "ex_moment = fixed_moment 0"

definition ex_devices :: "device list" where
  "ex_devices = load_devices ex_moment [(''1'', ''A'', ''Asia/Kolkata''), (''x7'', ''B'', ''Mars/Phobos'')]"

definition ex_device :: device where
  "ex_device = \<lparr> dev_id = Num 1, dev_name = ''A'', dev_timezone = ''Asia/Kolkata'' \<rparr>"

definition ex_query :: query where
  "ex_query =
     \<lparr> deviceId = Some ''1'', startDateTime = Some ''2023-06-01T00:00'',
       endDateTime = Some ''2023-06-30T23:59'' \<rparr>"

text \<open>The two ends of that range in Asia/Kolkata, as instants.\<close>

definition ex_start :: int where
  "ex_start = 1685557800000"

definition ex_end :: int where
  "ex_end = 1688149740000"

definition ex_savings :: "savings_item list" where
  "ex_savings =
     load_savings
       [(''1'', ''2023-06-15T10:00:00+05:30'', ''500'', ''10''),
        (''1'', ''2023-06-01T00:00:00+05:30'', ''250'', ''4''),
        (''1'', ''2023-06-30T23:59:00+05:30'', ''50'', ''1''),
        (''1'', ''2023-07-01T00:00:00+05:30'', ''70'', ''2''),
        (''1'', ''not-a-date'', ''30'', ''3''),
        (''2'', ''2023-06-15T10:00:00+05:30'', ''900'', ''9'')]"

text \<open>The records that the handler returns for that query on that store.\<close>

definition ex_data :: "out_item list" where
  "ex_data =
     map with_timestamp
       (load_savings
          [(''1'', ''2023-06-15T10:00:00+05:30'', ''500'', ''10''),
           (''1'', ''2023-06-01T00:00:00+05:30'', ''250'', ''4''),
           (''1'', ''2023-06-30T23:59:00+05:30'', ''50'', ''1'')])"

text \<open>
  Two records whose timestamps carry no offset, and a query of two hours of 15 June 2023
  (09:00 to 11:00 in Asia/Kolkata, that is 03:30 to 05:30 UTC).
\<close>

definition ex_savings_naive :: "savings_item list" where
  "ex_savings_naive =
     load_savings
       [(''1'', ''2023-06-15T10:00:00'', ''500'', ''10''),
        (''1'', ''2023-06-15T04:30:00'', ''300'', ''6'')]"

definition ex_query_naive :: query where
  "ex_query_naive =
     \<lparr> deviceId = Some ''1'', startDateTime = Some ''2023-06-15T09:00'',
       endDateTime = Some ''2023-06-15T11:00'' \<rparr>"

definition ex_start_naive :: int where
  "ex_start_naive = 1686799800000"

definition ex_end_naive :: int where
  "ex_end_naive = 1686807000000"

text \<open>
  A record of the first hours of June in Asia/Kolkata, which is still May in UTC; and a
  record whose timestamp is written as RFC 2822.
\<close>

definition ex_savings_edge :: "savings_item list" where
  "ex_savings_edge = load_savings [(''1'', ''2023-06-01T02:00:00+05:30'', ''500'', ''10'')]"

definition ex_savings_rfc :: "savings_item list" where
  "ex_savings_rfc = load_savings [(''1'', ''15 Jun 2023 10:00:00 +0530'', ''500'', ''10'')]"

definition ex_query_reversed :: query where
  "ex_query_reversed =
     \<lparr> deviceId = Some ''1'', startDateTime = Some ''2023-06-30T23:59'',
       endDateTime = Some ''2023-06-01T00:00'' \<rparr>"

definition ex_query_abc :: query where
  "ex_query_abc =
     \<lparr> deviceId = Some ''abc'', startDateTime = Some ''2023-06-01T00:00'',
       endDateTime = Some ''2023-06-30T23:59'' \<rparr>"

text \<open>
  A record exactly at the start of June 2023 in Asia/Kolkata, written as RFC 2822; two
  records that save 0.1 and 0.2 of fuel; and device rows with a zone to keep.
\<close>

definition ex_savings_rfc_start :: "savings_item list" where
  "ex_savings_rfc_start = load_savings [(''1'', ''1 Jun 2023 00:00:00 +0530'', ''500'', ''10'')]"

definition ex_rows_tenths :: "(string \<times> string \<times> string \<times> string) list" where
  "ex_rows_tenths =
     [(''1'', ''2023-06-15T10:00:00+05:30'', ''100'', ''0.1''),
      (''1'', ''2023-06-16T10:00:00+05:30'', ''200'', ''0.2'')]"

definition ex_device_rows :: "(string \<times> string \<times> string) list" where
  "ex_device_rows = [(''7'', ''T'', '' \"Asia/Tokyo\" ''), (''x7'', ''B'', ''Mars/Phobos'')]"

definition ex_query_space :: query where
  "ex_query_space =
     \<lparr> deviceId = Some '' 1'', startDateTime = Some ''2023-06-01T00:00'',
       endDateTime = Some ''2023-06-30T23:59'' \<rparr>"

definition ex_query_1abc :: query where
  "ex_query_1abc =
     \<lparr> deviceId = Some ''1abc'', startDateTime = Some ''2023-06-01T00:00'',
       endDateTime = Some ''2023-06-30T23:59'' \<rparr>"

section \<open>Auxiliary facts\<close>

lemma round64_zero [simp]: "round64 0 = Num 0"
  by (simp add: round64_def)

lemma savings_handler_valid:
  assumes "valid_query M devices q dev startM endM"
  shows "savings_handler M devices savingsData q =
     (case lastMonthData M (format_YYYY_MM M (Zone (dev_timezone dev)) (startOf_month M (Zone (dev_timezone dev)) endM)) endM
             (filteredData M savingsData (the (deviceId q)) startM endM) of
        Inl e \<Rightarrow> Inl e
      | Inr monthData \<Rightarrow>
          Inr \<lparr> status = 200,
                body = SavingsBody (filteredData M savingsData (the (deviceId q)) startM endM)
                  \<lparr> totalCarbon = div1000 (reduce_carbon (filteredData M savingsData (the (deviceId q)) startM endM)),
                    totalFuel = reduce_fuel (filteredData M savingsData (the (deviceId q)) startM endM),
                    monthlyCarbon = (if monthData = [] then Num 0 else div1000 (reduce_carbon monthData)),
                    monthlyFuel = (if monthData = [] then Num 0 else reduce_fuel monthData),
                    lastMonth = format_YYYY_MM M (Zone (dev_timezone dev)) (startOf_month M (Zone (dev_timezone dev)) endM) \<rparr> \<rparr>)"
  using assms by (simp add: savings_handler_def valid_query_def Let_def split: sum.splits)

lemma lastMonthData_Inl:
  "lastMonthData M lm e items = Inl err \<Longrightarrow>
     err = TypeError ''Assignment to constant variable.''
     \<and> (\<exists>item \<in> set items. create_iso_strict M (device_timestamp item) = None)"
  by (induction items arbitrary: err) (auto simp: Let_def split: option.splits sum.splits)

lemma lastMonthData_Inr:
  "\<forall>item \<in> set items. create_iso_strict M (device_timestamp item) \<noteq> None \<Longrightarrow>
     lastMonthData M lm e items = Inr (filter (keep_month M lm e) items)"
  by (induction items) (auto simp: Let_def keep_month_def split: option.splits sum.splits)

lemma lastMonthData_crash:
  "item \<in> set items \<Longrightarrow> create_iso_strict M (device_timestamp item) = None \<Longrightarrow>
     lastMonthData M lm e items = Inl (TypeError ''Assignment to constant variable.'')"
proof (induction items)
  case Nil
  then show ?case by simp
next
  case (Cons a items)
  show ?case
  proof (cases "create_iso_strict M (device_timestamp a)")
    case None
    then show ?thesis by simp
  next
    case (Some t)
    with Cons.prems have "item \<in> set items" by auto
    with Cons.IH Cons.prems(2)
    have "lastMonthData M lm e items = Inl (TypeError ''Assignment to constant variable.'')"
      by simp
    with Some show ?thesis by (simp add: Let_def)
  qed
qed

text \<open>
  What a valid query is answered: the filtered set with its totals when every record of
  it has a strict ISO-8601 timestamp, and nothing otherwise.
\<close>

lemma handler_all_iso:
  assumes "valid_query M devices q dev startM endM"
      and "all_strict_iso M (filteredData M savingsData (the (deviceId q)) startM endM)"
  shows "savings_handler M devices savingsData q =
     Inr \<lparr> status = 200,
           body = SavingsBody (filteredData M savingsData (the (deviceId q)) startM endM)
             \<lparr> totalCarbon = div1000 (reduce_carbon (filteredData M savingsData (the (deviceId q)) startM endM)),
               totalFuel = reduce_fuel (filteredData M savingsData (the (deviceId q)) startM endM),
               monthlyCarbon =
                 (if (filter (keep_month M (format_YYYY_MM M (Zone (dev_timezone dev)) (startOf_month M (Zone (dev_timezone dev)) endM)) endM) (filteredData M savingsData (the (deviceId q)) startM endM)) = [] then Num 0
                  else div1000 (reduce_carbon (filter (keep_month M (format_YYYY_MM M (Zone (dev_timezone dev)) (startOf_month M (Zone (dev_timezone dev)) endM)) endM) (filteredData M savingsData (the (deviceId q)) startM endM)))),
               monthlyFuel =
                 (if (filter (keep_month M (format_YYYY_MM M (Zone (dev_timezone dev)) (startOf_month M (Zone (dev_timezone dev)) endM)) endM) (filteredData M savingsData (the (deviceId q)) startM endM)) = [] then Num 0
                  else reduce_fuel (filter (keep_month M (format_YYYY_MM M (Zone (dev_timezone dev)) (startOf_month M (Zone (dev_timezone dev)) endM)) endM) (filteredData M savingsData (the (deviceId q)) startM endM))),
               lastMonth = format_YYYY_MM M (Zone (dev_timezone dev)) (startOf_month M (Zone (dev_timezone dev)) endM) \<rparr> \<rparr>"
proof -
  from assms(2)
  have "\<forall>item \<in> set (filteredData M savingsData (the (deviceId q)) startM endM).
          create_iso_strict M (device_timestamp item) \<noteq> None"
    by (simp add: all_strict_iso_def list_all_iff)
  from lastMonthData_Inr[OF this] show ?thesis
    unfolding savings_handler_valid[OF assms(1)] by simp
qed

lemma handler_not_all_iso:
  assumes "valid_query M devices q dev startM endM"
      and "\<not> all_strict_iso M (filteredData M savingsData (the (deviceId q)) startM endM)"
  shows "savings_handler M devices savingsData q =
           Inl (TypeError ''Assignment to constant variable.'')"
proof -
  from assms(2) obtain item
    where "item \<in> set (filteredData M savingsData (the (deviceId q)) startM endM)"
      and "create_iso_strict M (device_timestamp item) = None"
    by (auto simp: all_strict_iso_def list_all_iff)
  from lastMonthData_crash[OF this] show ?thesis
    unfolding savings_handler_valid[OF assms(1)] by simp
qed

lemma returned_data_valid:
  assumes "valid_query M devices q dev startM endM"
  shows "returned_data (savings_handler M devices savingsData q) =
     (if all_strict_iso M (filteredData M savingsData (the (deviceId q)) startM endM)
      then Some (filteredData M savingsData (the (deviceId q)) startM endM) else None)"
proof (cases "all_strict_iso M (filteredData M savingsData (the (deviceId q)) startM endM)")
  case True
  from handler_all_iso[OF assms True] show ?thesis
    using True by (auto simp: returned_data_def)
next
  case False
  from handler_not_all_iso[OF assms False] show ?thesis
    using False by (simp add: returned_data_def)
qed

lemma with_timestamp_inj: "with_timestamp a = with_timestamp b \<Longrightarrow> a = b"
  by (cases a, cases b) (simp add: with_timestamp_def)

lemma isBetween_incl_iff:
  "isBetween_incl d lo hi \<longleftrightarrow> (\<exists>t. d = Some t \<and> lo \<le> t \<and> t \<le> hi)"
  by (auto simp: isBetween_incl_def split: option.splits)

lemma filteredData_mem:
  "with_timestamp item \<in> set (filteredData M savingsData did startM endM) \<longleftrightarrow>
     item \<in> set savingsData \<and> strict_eq (device_id item) (parseInt did)
     \<and> (\<exists>t. itemDate_of M (device_timestamp item) = Some t \<and> startM \<le> t \<and> t \<le> endM)"
  by (auto simp: filteredData_def in_range_item_def isBetween_incl_iff dest: with_timestamp_inj)

lemma filteredData_empty:
  "endM < startM \<Longrightarrow> filteredData M savingsData did startM endM = []"
  by (auto simp: filteredData_def in_range_item_def isBetween_incl_iff filter_empty_conv)

lemma filteredData_itemDate:
  "item \<in> set (filteredData M savingsData did startM endM) \<Longrightarrow>
     \<exists>t. itemDate_of M (device_timestamp item) = Some t \<and> startM \<le> t \<and> t \<le> endM"
  by (auto simp: filteredData_def in_range_item_def isBetween_incl_iff with_timestamp_def split: if_splits)

lemma filteredData_parseInt:
  "parseInt d1 = parseInt d2 \<Longrightarrow>
     filteredData M savingsData d1 startM endM = filteredData M savingsData d2 startM endM"
  by (simp add: filteredData_def)

lemma or0_not_NaN: "or0 n \<noteq> NaN"
  by (cases n) auto

lemma or0_id: "n \<noteq> NaN \<Longrightarrow> or0 n = n"
  by (cases n) auto

lemma foldl_or0:
  "\<forall>item \<in> set items. f item \<noteq> NaN \<Longrightarrow>
     foldl (\<lambda>sum item. js_add sum (or0 (f item))) acc items = foldl js_add acc (map f items)"
  by (induction items arbitrary: acc) (simp_all add: or0_id)

lemma reduce_carbon_js_sum:
  "\<forall>item \<in> set items. carbon_saved item \<noteq> NaN \<Longrightarrow>
     reduce_carbon items = js_sum (map carbon_saved items)"
  unfolding reduce_carbon_def js_sum_def by (rule foldl_or0)

lemma reduce_fuel_js_sum:
  "\<forall>item \<in> set items. fueld_saved item \<noteq> NaN \<Longrightarrow>
     reduce_fuel items = js_sum (map fueld_saved items)"
  unfolding reduce_fuel_def js_sum_def by (rule foldl_or0)

lemma savings_row_not_NaN:
  "carbon_saved (savings_row row) \<noteq> NaN \<and> fueld_saved (savings_row row) \<noteq> NaN"
  by (cases row) (simp add: savings_row.simps transform_savings_def or0_not_NaN)

lemma filteredData_loaded_not_NaN:
  "item \<in> set (filteredData M (load_savings rows) did startM endM) \<Longrightarrow>
     carbon_saved item \<noteq> NaN \<and> fueld_saved item \<noteq> NaN"
  using savings_row_not_NaN
  by (auto simp: filteredData_def load_savings_def with_timestamp_def)

lemma keep_month_in_local_month:
  assumes "item \<in> set (filteredData M savingsData did startM endM)" and "strict_iso_item M item"
  shows "keep_month M lm endM item = in_local_month M lm endM item"
proof -
  from assms(2) obtain t where t: "create_iso_strict M (device_timestamp item) = Some t"
    and le: "startOf_month M Local t \<le> t"
    by (auto simp: strict_iso_item_def split: option.splits)
  from filteredData_itemDate[OF assms(1)] t have "t \<le> endM"
    by (auto simp: itemDate_of_def Let_def)
  with t le show ?thesis by (auto simp: keep_month_def in_local_month_def)
qed

lemma is_digit_facts:
  "is_digit c \<Longrightarrow> c \<noteq> CHR ''-'' \<and> c \<noteq> CHR ''+'' \<and> c \<noteq> CHR ''x'' \<and> c \<noteq> CHR ''X''"
  by (auto simp: is_digit_def)

lemma is_digit_digit_val: "is_digit c \<longleftrightarrow> digit_val c < 10"
  by (auto simp: is_digit_def digit_val_def Let_def)

lemma ws_char_hd: "ws_char cs \<Longrightarrow> cs \<noteq> [] \<and> \<not> is_digit (hd cs)"
  by (auto simp: ws_char_def ws_chars_def is_digit_def)

lemma skip_ws_digit: "is_digit a \<Longrightarrow> skip_ws (a # r) = a # r"
proof -
  assume a: "is_digit a"
  have "\<not> ws_char (take n (a # r))" for n
    using ws_char_hd[of "take n (a # r)"] a by (cases n) auto
  then have "ws_len (a # r) = 0"
    unfolding ws_len_def by presburger
  then show ?thesis by (simp add: skip_ws.simps)
qed

lemma parseInt_no_leading_digit: "no_leading_digit s \<Longrightarrow> parseInt s = NaN"
proof -
  assume a: "no_leading_digit s"
  define s0 where "s0 = skip_ws s"
  define s1 where "s1 = (case s0 of [] \<Rightarrow> [] | c # r \<Rightarrow> if c = CHR ''-'' \<or> c = CHR ''+'' then r else s0)"
  have nd: "s1 = [] \<or> \<not> is_digit (hd s1)"
  proof (cases s0)
    case Nil
    then show ?thesis by (simp add: s1_def)
  next
    case (Cons c r)
    from a have "case s0 of [] \<Rightarrow> True
      | c # r \<Rightarrow> if c = CHR ''-'' \<or> c = CHR ''+'' then (case r of [] \<Rightarrow> True | c1 # _ \<Rightarrow> \<not> is_digit c1)
                else \<not> is_digit c"
      unfolding no_leading_digit_def s0_def .
    with Cons show ?thesis by (auto simp: s1_def split: list.splits if_splits)
  qed
  have d0: "is_digit CHR ''0''"
    by (simp add: is_digit_def)
  have hex: "(case s1 of a # b # _ \<Rightarrow> a = CHR ''0'' \<and> (b = CHR ''x'' \<or> b = CHR ''X'') | _ \<Rightarrow> False) = False"
    using nd d0 by (auto split: list.splits)
  have "takeWhile (\<lambda>c. digit_val c < 10) s1 = []"
    using nd by (cases s1) (auto simp: is_digit_digit_val)
  with hex show ?thesis
    unfolding parseInt_def Let_def s1_def[symmetric, unfolded s0_def] s0_def[symmetric]
    by (simp add: s1_def[symmetric] s0_def[symmetric])
qed

lemma parseInt_digits:
  assumes "all_digits ds"
  shows "parseInt ds = round64 (of_int (digits_value 10 ds))"
proof -
  from assms obtain a r where ds: "ds = a # r" and a: "is_digit a" and r: "list_all is_digit r"
    by (cases ds) (auto simp: all_digits_def)
  have nh: "\<not> (case ds of a # b # _ \<Rightarrow> a = CHR ''0'' \<and> (b = CHR ''x'' \<or> b = CHR ''X'') | _ \<Rightarrow> False)"
    using ds r is_digit_facts by (cases r) auto
  have tw: "takeWhile (\<lambda>c. digit_val c < 10) ds = ds"
    using ds a r by (auto simp: takeWhile_eq_all_conv is_digit_digit_val list_all_iff)
  have sk: "skip_ws ds = ds"
    using ds skip_ws_digit[OF a] by simp
  show ?thesis
    unfolding parseInt_def Let_def sk
    using nh tw ds is_digit_facts[OF a] by simp
qed

lemma parseInt_trailing:
  assumes "all_digits ds" and "\<not> is_digit c"
      and "\<not> (ds = ''0'' \<and> (c = CHR ''x'' \<or> c = CHR ''X''))"
  shows "parseInt (ds @ c # rest) = parseInt ds"
proof -
  from assms(1) obtain a r where ds: "ds = a # r" and a: "is_digit a" and r: "list_all is_digit r"
    by (cases ds) (auto simp: all_digits_def)
  have nh: "\<not> (case ds @ c # rest of a # b # _ \<Rightarrow> a = CHR ''0'' \<and> (b = CHR ''x'' \<or> b = CHR ''X'') | _ \<Rightarrow> False)"
    using ds r assms(3) is_digit_facts by (cases r) auto
  have "takeWhile (\<lambda>c. digit_val c < 10) (ds @ c # rest) = takeWhile (\<lambda>c. digit_val c < 10) ds"
    using assms(2) by (intro takeWhile_tail) (simp add: is_digit_digit_val)
  also have "\<dots> = ds"
    using ds a r by (auto simp: takeWhile_eq_all_conv is_digit_digit_val list_all_iff)
  finally have tw: "takeWhile (\<lambda>c. digit_val c < 10) (ds @ c # rest) = ds" .
  have sk: "skip_ws (ds @ c # rest) = ds @ c # rest"
    using ds skip_ws_digit[OF a] by simp
  have "parseInt (ds @ c # rest) = round64 (of_int (digits_value 10 ds))"
    unfolding parseInt_def Let_def sk
    using nh tw ds is_digit_facts[OF a] by simp
  then show ?thesis by (simp add: parseInt_digits[OF assms(1)])
qed

lemma find_device_NaN: "find_device devices did = Some d \<Longrightarrow> dev_id d \<noteq> NaN \<and> parseInt did \<noteq> NaN"
  by (auto simp: find_device_def find_Some_iff strict_eq_def)

lemma find_device_None_NaN: "parseInt did = NaN \<Longrightarrow> find_device devices did = None"
  by (auto simp: find_device_def find_None_iff strict_eq_def)

lemma find_device_all_NaN: "\<forall>d \<in> set devices. dev_id d = NaN \<Longrightarrow> find_device devices did = None"
  by (auto simp: find_device_def find_None_iff strict_eq_def)

lemma find_filter_weaker: "(\<And>x. P x \<Longrightarrow> Q x) \<Longrightarrow> find P (filter Q xs) = find P xs"
  by (induction xs) auto

lemma find_device_drop_NaN:
  "find_device (filter (\<lambda>d. dev_id d \<noteq> NaN) devices) did = find_device devices did"
  unfolding find_device_def by (rule find_filter_weaker) (simp add: strict_eq_def)

lemma handler_find_device:
  "find_device devices1 (the (deviceId q)) = find_device devices2 (the (deviceId q)) \<Longrightarrow>
     savings_handler M devices1 savingsData q = savings_handler M devices2 savingsData q"
  by (simp add: savings_handler_def)

lemma handler_parseInt_cong:
  "parseInt d1 = parseInt d2 \<Longrightarrow> d1 \<noteq> [] \<Longrightarrow> d2 \<noteq> [] \<Longrightarrow>
     savings_handler M devices savingsData (q\<lparr>deviceId := Some d1\<rparr>)
       = savings_handler M devices savingsData (q\<lparr>deviceId := Some d2\<rparr>)"
proof -
  assume p: "parseInt d1 = parseInt d2" and n: "d1 \<noteq> []" "d2 \<noteq> []"
  have f: "filteredData M savingsData d1 = filteredData M savingsData d2"
    by (simp add: fun_eq_iff filteredData_def p)
  have g: "find_device devices d1 = find_device devices d2"
    by (simp add: find_device_def p)
  show ?thesis
    using n by (auto simp: savings_handler_def missing_def f g Let_def split: option.splits)
qed

lemma handler_404:
  "\<not> missing (deviceId q) \<Longrightarrow> \<not> missing (startDateTime q) \<Longrightarrow> \<not> missing (endDateTime q) \<Longrightarrow>
   find_device devices (the (deviceId q)) = None \<Longrightarrow>
   savings_handler M devices savingsData q = Inr \<lparr> status = 404, body = ErrorBody ''Device not found'' \<rparr>"
  by (simp add: savings_handler_def Let_def)

text \<open>
  The number and string model at a few inputs: white space beyond ASCII is skipped, sums
  are rounded, large integers lose their last bits.
\<close>

lemma parseInt_no_break_space: "parseInt [CHR 0xC2, CHR 0xA0, CHR ''1''] = Num 1"
  by code_simp

lemma parseInt_byte_order_mark: "parseInt ([CHR 0xEF, CHR 0xBB, CHR 0xBF, CHR 0x20] @ ''-12x'') = Num (- 12)"
  by code_simp

lemma js_trim_unicode:
  "js_trim ([CHR 0x20, CHR 0xE2, CHR 0x80, CHR 0xA8] @ ''ab c'' @ [CHR 0xC2, CHR 0xA0, CHR 0x09]) = ''ab c''"
  by code_simp

lemma js_add_tenths:
  "js_add (parseFloat ''0.1'') (parseFloat ''0.2'') = parseFloat ''0.30000000000000004''
   \<and> js_add (parseFloat ''0.1'') (parseFloat ''0.2'') \<noteq> parseFloat ''0.3''"
  by code_simp

lemma parseInt_beyond_2_53: "parseInt ''9007199254740993'' = Num 9007199254740992"
  by code_simp

text \<open>The example data, evaluated.\<close>

lemma ex_valid_query: "valid_query ex_moment ex_devices ex_query ex_device ex_start ex_end"
  by code_simp

lemma ex_valid_query_naive:
  "valid_query ex_moment ex_devices ex_query_naive ex_device ex_start_naive ex_end_naive"
  by code_simp

section \<open>The claims\<close>

subsection \<open>C1: a record that fails to parse never aborts the query\<close>

text \<open>
  C1 says that a record whose \<open>device_timestamp\<close> fails to parse, at any stage and also
  during the selection of the monthly subset, is only left out, and that no such failure
  aborts the query. The handler does otherwise: on a valid query, as soon as one record
  that passed the range filter has a timestamp the strict ISO-8601 parse rejects (the
  lenient or the UTC parse accepted it), the second filter assigns to its \<open>const\<close>
  date, and the \<open>TypeError\<close> leaves the handler: no answer is built.
\<close>

theorem non_iso_record_aborts_query:
  assumes "valid_query M devices q dev startM endM"
      and "item \<in> set (filteredData M savingsData (the (deviceId q)) startM endM)"
      and "create_iso_strict M (device_timestamp item) = None"
  shows "savings_handler M devices savingsData q =
           Inl (TypeError ''Assignment to constant variable.'')"
  unfolding savings_handler_valid[OF assms(1)]
  using lastMonthData_crash[OF assms(2) assms(3)] by simp

text \<open>
  The failing input of C1: device 1 in Asia/Kolkata, the row
  \<open>1,15 Jun 2023 10:00:00 +0530,500,10\<close> and the query of June 2023.
\<close>

theorem non_iso_record_aborts_query_witness:
  "savings_handler ex_moment ex_devices ex_savings_rfc ex_query =
     Inl (TypeError ''Assignment to constant variable.'')"
proof -
  have m: "with_timestamp (savings_row (''1'', ''15 Jun 2023 10:00:00 +0530'', ''500'', ''10''))
             \<in> set (filteredData ex_moment ex_savings_rfc (the (deviceId ex_query)) ex_start ex_end)"
    by code_simp
  have n: "create_iso_strict ex_moment
             (device_timestamp
                (with_timestamp (savings_row (''1'', ''15 Jun 2023 10:00:00 +0530'', ''500'', ''10''))))
           = None"
    by code_simp
  show ?thesis
    by (rule non_iso_record_aborts_query[OF ex_valid_query m n])
qed

subsection \<open>C2: the monthly rollup\<close>

text \<open>
  C2 says that the monthly subset holds the filtered records that fall in the calendar
  month, in the device's timezone, of \<open>endDateTime\<close>. The handler does otherwise, and
  what it does is this. \<open>lastMonth\<close> is the year-month, in the device's timezone, of
  the start of the month of \<open>endDateTime\<close>. On a store that \<open>loadData\<close> built, and
  when every record of the filtered set has a timestamp that the strict ISO-8601 parse
  accepts, the monthly subset is exactly the filtered records whose year-month, read in
  the server's local time, is \<open>lastMonth\<close> (and which are not after the end of the
  range); \<open>monthlyCarbon\<close> is the sum of \<open>carbon_saved\<close> over that subset divided by
  1000 and \<open>monthlyFuel\<close> the sum of \<open>fueld_saved\<close>, both 0 when the subset is empty.
  The month of the record is read in another zone than \<open>lastMonth\<close> is written in: a
  record of the device's month that is in the neighbouring month on the server's clock is
  left out. The chart of the client formats the month of the same records with an
  explicit zone.
\<close>

theorem monthly_rollup_server_local:
  fixes M devices q dev startM endM rows
  defines "data \<equiv> filteredData M (load_savings rows) (the (deviceId q)) startM endM"
      and "lm \<equiv> format_YYYY_MM M (Zone (dev_timezone dev)) (startOf_month M (Zone (dev_timezone dev)) endM)"
  defines "sub \<equiv> filter (in_local_month M lm endM) data"
  assumes "valid_query M devices q dev startM endM"
      and "\<forall>item \<in> set data. strict_iso_item M item"
  shows "\<exists>tot. returned_totals (savings_handler M devices (load_savings rows) q) = Some tot
     \<and> lastMonth tot = lm
     \<and> monthlyCarbon tot = (if sub = [] then Num 0 else div1000 (js_sum (map carbon_saved sub)))
     \<and> monthlyFuel tot = (if sub = [] then Num 0 else js_sum (map fueld_saved sub))"
proof -
  have iso: "\<forall>item \<in> set data. create_iso_strict M (device_timestamp item) \<noteq> None"
    using assms(5) by (auto simp: strict_iso_item_def split: option.splits)
  have "filter (keep_month M lm endM) data = sub"
    unfolding sub_def
    using assms(5)
      keep_month_in_local_month[of _ M "load_savings rows" "the (deviceId q)" startM endM]
    by (intro filter_cong) (auto simp: data_def)
  with lastMonthData_Inr[OF iso] have lmd: "lastMonthData M lm endM data = Inr sub"
    by simp
  have nn: "\<forall>item \<in> set sub. carbon_saved item \<noteq> NaN"
    "\<forall>item \<in> set sub. fueld_saved item \<noteq> NaN"
    using filteredData_loaded_not_NaN unfolding sub_def data_def by auto
  show ?thesis
    unfolding savings_handler_valid[OF assms(4)] returned_totals_def
    using lmd reduce_carbon_js_sum[OF nn(1)] reduce_fuel_js_sum[OF nn(2)]
    by (simp add: data_def[symmetric] lm_def[symmetric])
qed

text \<open>
  The failing input of C2: the server's local time is UTC, the device is in Asia/Kolkata,
  and the row is \<open>1,2023-06-01T02:00:00+05:30,500,10\<close>. The record is returned, falls
  in June 2023 in the device's timezone and is before the end of the range, so it is the
  monthly subset of the statement; the handler reads its month as May and answers
  \<open>monthlyCarbon = 0\<close> and \<open>monthlyFuel = 0\<close>.
\<close>

theorem monthly_rollup_server_local_witness:
  "(\<exists>tot. returned_totals (savings_handler ex_moment ex_devices ex_savings_edge ex_query) = Some tot
      \<and> lastMonth tot = ''2023-06''
      \<and> monthlyCarbon tot = Num 0
      \<and> monthlyFuel tot = Num 0)
   \<and> spec_lastMonthData ex_moment (dev_timezone ex_device) ex_end
         (filteredData ex_moment ex_savings_edge ''1'' ex_start ex_end)
       = map with_timestamp ex_savings_edge
   \<and> div1000 (js_sum (map carbon_saved (map with_timestamp ex_savings_edge))) = Num (1 / 2)"
proof -
  let ?rows = "[(''1'', ''2023-06-01T02:00:00+05:30'', ''500'', ''10'')]"
  let ?data = "filteredData ex_moment (load_savings ?rows) (the (deviceId ex_query)) ex_start ex_end"
  let ?lm = "format_YYYY_MM ex_moment (Zone (dev_timezone ex_device))
               (startOf_month ex_moment (Zone (dev_timezone ex_device)) ex_end)"
  have iso: "\<forall>item \<in> set ?data. strict_iso_item ex_moment item"
    by code_simp
  have lm: "?lm = ''2023-06''"
    by code_simp
  have c: "(if filter (in_local_month ex_moment ''2023-06'' ex_end) ?data = [] then Num 0
            else div1000 (js_sum (map carbon_saved
                   (filter (in_local_month ex_moment ''2023-06'' ex_end) ?data)))) = Num 0"
    by code_simp
  have f: "(if filter (in_local_month ex_moment ''2023-06'' ex_end) ?data = [] then Num 0
            else js_sum (map fueld_saved
                   (filter (in_local_month ex_moment ''2023-06'' ex_end) ?data))) = Num 0"
    by code_simp
  have a: "\<exists>tot. returned_totals (savings_handler ex_moment ex_devices ex_savings_edge ex_query) = Some tot
      \<and> lastMonth tot = ''2023-06''
      \<and> monthlyCarbon tot = Num 0
      \<and> monthlyFuel tot = Num 0"
    using monthly_rollup_server_local[OF ex_valid_query iso]
    unfolding lm c f ex_savings_edge_def .
  have b: "spec_lastMonthData ex_moment (dev_timezone ex_device) ex_end
         (filteredData ex_moment ex_savings_edge ''1'' ex_start ex_end)
       = map with_timestamp ex_savings_edge
   \<and> div1000 (js_sum (map carbon_saved (map with_timestamp ex_savings_edge))) = Num (1 / 2)"
    by code_simp
  from a b show ?thesis by blast
qed

subsection \<open>C3: the timezone in which a record's timestamp is read\<close>

text \<open>
  C3, as the code has it. A record's \<open>device_timestamp\<close> is given a meaning at query
  time only, and the timezone of the queried device serves for the two ends of the range
  and for nothing else. On every valid query a record of the store passes the range test
  exactly when its \<open>device_id\<close> is the requested one and its date lies between the two
  ends (both included), where its date is the strict ISO-8601 parse in server-local
  mode, else the lenient parse in server-local mode, else the UTC parse. The records
  that pass are the records of the answer whenever all of them have a strict ISO-8601
  timestamp; otherwise the query has no answer (C1).
\<close>

theorem record_timestamp_server_local:
  fixes M devices q dev startM endM savingsData
  defines "fd \<equiv> filteredData M savingsData (the (deviceId q)) startM endM"
  assumes "valid_query M devices q dev startM endM"
  shows "(with_timestamp item \<in> set fd \<longleftrightarrow>
          item \<in> set savingsData \<and> strict_eq (device_id item) (parseInt (the (deviceId q)))
          \<and> (\<exists>t. startM \<le> t \<and> t \<le> endM
                \<and> (create_iso_strict M (device_timestamp item) = Some t
                    \<or> create_iso_strict M (device_timestamp item) = None
                       \<and> create_local M (device_timestamp item) = Some t
                    \<or> create_iso_strict M (device_timestamp item) = None
                       \<and> create_local M (device_timestamp item) = None
                       \<and> create_utc M (device_timestamp item) = Some t)))
     \<and> returned_data (savings_handler M devices savingsData q)
         = (if all_strict_iso M fd then Some fd else None)"
proof -
  have "itemDate_of M ts = Some t \<longleftrightarrow>
          (create_iso_strict M ts = Some t
            \<or> create_iso_strict M ts = None \<and> create_local M ts = Some t
            \<or> create_iso_strict M ts = None \<and> create_local M ts = None
               \<and> create_utc M ts = Some t)" for ts t
    by (auto simp: itemDate_of_def Let_def)
  then have "with_timestamp item \<in> set fd \<longleftrightarrow>
          item \<in> set savingsData \<and> strict_eq (device_id item) (parseInt (the (deviceId q)))
          \<and> (\<exists>t. startM \<le> t \<and> t \<le> endM
                \<and> (create_iso_strict M (device_timestamp item) = Some t
                    \<or> create_iso_strict M (device_timestamp item) = None
                       \<and> create_local M (device_timestamp item) = Some t
                    \<or> create_iso_strict M (device_timestamp item) = None
                       \<and> create_local M (device_timestamp item) = None
                       \<and> create_utc M (device_timestamp item) = Some t))"
    unfolding fd_def filteredData_mem by auto
  with returned_data_valid[OF assms(2), of savingsData] show ?thesis
    by (simp add: fd_def)
qed

text \<open>
  On a server in UTC, the record written \<open>2023-06-15T04:30:00\<close> is the answer for the
  range 09:00 to 11:00 of that day in Asia/Kolkata: it is read as 04:30 UTC. And the
  record written \<open>15 Jun 2023 10:00:00 +0530\<close> passes the range test of June 2023 by
  the lenient parse.
\<close>

theorem record_timestamp_server_local_witness:
  "returned_data (savings_handler ex_moment ex_devices ex_savings_naive ex_query_naive)
     = Some [with_timestamp (savings_row (''1'', ''2023-06-15T04:30:00'', ''300'', ''6''))]
   \<and> with_timestamp (savings_row (''1'', ''2023-06-15T04:30:00'', ''300'', ''6''))
       \<in> set (filteredData ex_moment ex_savings_naive ''1'' ex_start_naive ex_end_naive)
   \<and> with_timestamp (savings_row (''1'', ''15 Jun 2023 10:00:00 +0530'', ''500'', ''10''))
       \<in> set (filteredData ex_moment ex_savings_rfc ''1'' ex_start ex_end)"
proof -
  let ?item = "savings_row (''1'', ''2023-06-15T04:30:00'', ''300'', ''6'')"
  let ?rfc = "savings_row (''1'', ''15 Jun 2023 10:00:00 +0530'', ''500'', ''10'')"
  have dn: "the (deviceId ex_query_naive) = ''1''" and d: "the (deviceId ex_query) = ''1''"
    by (simp_all add: ex_query_naive_def ex_query_def)
  note n = record_timestamp_server_local[OF ex_valid_query_naive,
      where savingsData = ex_savings_naive and item = ?item, unfolded dn]
  note r = record_timestamp_server_local[OF ex_valid_query,
      where savingsData = ex_savings_rfc and item = ?rfc, unfolded d]
  have i: "all_strict_iso ex_moment
              (filteredData ex_moment ex_savings_naive ''1'' ex_start_naive ex_end_naive)"
    by code_simp
  have fd: "filteredData ex_moment ex_savings_naive ''1'' ex_start_naive ex_end_naive
              = [with_timestamp ?item]"
    by code_simp
  from n have "returned_data (savings_handler ex_moment ex_devices ex_savings_naive ex_query_naive)
      = (if all_strict_iso ex_moment
              (filteredData ex_moment ex_savings_naive ''1'' ex_start_naive ex_end_naive)
         then Some (filteredData ex_moment ex_savings_naive ''1'' ex_start_naive ex_end_naive)
         else None)"
    by (rule conjunct2)
  with i have "returned_data (savings_handler ex_moment ex_devices ex_savings_naive ex_query_naive)
      = Some (filteredData ex_moment ex_savings_naive ''1'' ex_start_naive ex_end_naive)"
    by (simp only: if_True)
  then have a: "returned_data (savings_handler ex_moment ex_devices ex_savings_naive ex_query_naive)
             = Some [with_timestamp ?item]"
    by (simp only: fd)
  have b: "with_timestamp ?item
             \<in> set (filteredData ex_moment ex_savings_naive ''1'' ex_start_naive ex_end_naive)"
    by (simp only: fd list.set insertI1)
  have m: "?rfc \<in> set ex_savings_rfc"
    by (simp add: ex_savings_rfc_def load_savings_def)
  have e: "strict_eq (device_id ?rfc) (parseInt ''1'')"
    by code_simp
  have p: "create_iso_strict ex_moment (device_timestamp ?rfc) = None
           \<and> create_local ex_moment (device_timestamp ?rfc) = Some 1686803400000"
    by code_simp
  have le: "ex_start \<le> 1686803400000 \<and> 1686803400000 \<le> ex_end"
    by (simp add: ex_start_def ex_end_def)
  have c: "with_timestamp ?rfc \<in> set (filteredData ex_moment ex_savings_rfc ''1'' ex_start ex_end)"
    using r m e p le by blast
  from a b c show ?thesis by blast
qed

text \<open>
  C3 as it is stated fails. On a server in UTC, with the device in Asia/Kolkata and the
  range 09:00 to 11:00 of 15 June 2023 in that zone, the record written
  \<open>2023-06-15T10:00:00\<close>, with no offset, is in the range when read in the device's
  timezone; the handler reads it as 10:00 UTC and does not return it.
\<close>

theorem record_timestamp_counterexample:
  "valid_query ex_moment ex_devices ex_query_naive ex_device ex_start_naive ex_end_naive
   \<and> hd ex_savings_naive \<in> set ex_savings_naive
   \<and> device_timestamp (hd ex_savings_naive) = ''2023-06-15T10:00:00''
   \<and> strict_eq (device_id (hd ex_savings_naive)) (dev_id ex_device)
   \<and> spec_in_range ex_moment (dev_timezone ex_device) ex_start_naive ex_end_naive
        (hd ex_savings_naive)
   \<and> returned_data (savings_handler ex_moment ex_devices ex_savings_naive ex_query_naive)
       = Some [with_timestamp (savings_row (''1'', ''2023-06-15T04:30:00'', ''300'', ''6''))]"
  by code_simp

subsection \<open>C4: the range is inclusive at both ends\<close>

text \<open>
  C4 says that on every valid query a record of the queried device is in the returned
  set if and only if its normalized timestamp \<open>t\<close> satisfies \<open>start \<le> t \<le> end\<close>, a
  record exactly at \<open>start\<close> or at \<open>end\<close> included. The range filter does that: a
  record passes it exactly when its timestamp is in the range, both ends included. But
  the set that passed is returned only when every record of it has a strict ISO-8601
  timestamp; otherwise nothing is returned, by the defect of C1.
\<close>

theorem range_filter_inclusive:
  fixes M devices q dev startM endM savingsData
  defines "fd \<equiv> filteredData M savingsData (the (deviceId q)) startM endM"
  assumes "valid_query M devices q dev startM endM"
  shows "(with_timestamp item \<in> set fd \<longleftrightarrow>
          item \<in> set savingsData \<and> strict_eq (device_id item) (dev_id dev)
          \<and> (\<exists>t. itemDate_of M (device_timestamp item) = Some t \<and> startM \<le> t \<and> t \<le> endM))
     \<and> (item \<in> set savingsData \<and> strict_eq (device_id item) (dev_id dev) \<and> startM \<le> endM
          \<and> (itemDate_of M (device_timestamp item) = Some startM
              \<or> itemDate_of M (device_timestamp item) = Some endM)
        \<longrightarrow> with_timestamp item \<in> set fd)
     \<and> returned_data (savings_handler M devices savingsData q)
         = (if all_strict_iso M fd then Some fd else None)"
proof -
  have "strict_eq (dev_id dev) (parseInt (the (deviceId q)))"
    using assms(2) by (auto simp: valid_query_def find_device_def dest: find_Some_iff[THEN iffD1])
  then have "strict_eq (device_id item) (parseInt (the (deviceId q)))
               \<longleftrightarrow> strict_eq (device_id item) (dev_id dev)"
    by (auto simp: strict_eq_def)
  then have m: "with_timestamp item \<in> set fd \<longleftrightarrow>
          item \<in> set savingsData \<and> strict_eq (device_id item) (dev_id dev)
          \<and> (\<exists>t. itemDate_of M (device_timestamp item) = Some t \<and> startM \<le> t \<and> t \<le> endM)"
    unfolding fd_def filteredData_mem by simp
  then have b: "item \<in> set savingsData \<and> strict_eq (device_id item) (dev_id dev) \<and> startM \<le> endM
          \<and> (itemDate_of M (device_timestamp item) = Some startM
              \<or> itemDate_of M (device_timestamp item) = Some endM)
        \<longrightarrow> with_timestamp item \<in> set fd"
    by auto
  from m b returned_data_valid[OF assms(2), of savingsData] show ?thesis
    by (simp add: fd_def)
qed

text \<open>
  For June 2023 in Asia/Kolkata the handler returns the records exactly at the start and
  exactly at the end, and not the record one minute after the end. The failing input of
  C4: with the row \<open>1,1 Jun 2023 00:00:00 +0530,500,10\<close> the record is exactly at the
  start and passes the range filter, and the handler returns nothing.
\<close>

theorem range_filter_inclusive_witness:
  "returned_data (savings_handler ex_moment ex_devices ex_savings ex_query) = Some ex_data
   \<and> with_timestamp (savings_row (''1'', ''2023-06-01T00:00:00+05:30'', ''250'', ''4'')) \<in> set ex_data
   \<and> with_timestamp (savings_row (''1'', ''2023-06-30T23:59:00+05:30'', ''50'', ''1'')) \<in> set ex_data
   \<and> with_timestamp (savings_row (''1'', ''2023-07-01T00:00:00+05:30'', ''70'', ''2'')) \<notin> set ex_data
   \<and> with_timestamp (savings_row (''1'', ''1 Jun 2023 00:00:00 +0530'', ''500'', ''10''))
       \<in> set (filteredData ex_moment ex_savings_rfc_start ''1'' ex_start ex_end)
   \<and> returned_data (savings_handler ex_moment ex_devices ex_savings_rfc_start ex_query) = None"
proof -
  let ?a = "savings_row (''1'', ''2023-06-01T00:00:00+05:30'', ''250'', ''4'')"
  let ?b = "savings_row (''1'', ''2023-06-30T23:59:00+05:30'', ''50'', ''1'')"
  let ?c = "savings_row (''1'', ''2023-07-01T00:00:00+05:30'', ''70'', ''2'')"
  let ?r = "savings_row (''1'', ''1 Jun 2023 00:00:00 +0530'', ''500'', ''10'')"
  have d: "the (deviceId ex_query) = ''1''"
    by (simp add: ex_query_def)
  note th = range_filter_inclusive[OF ex_valid_query, where savingsData = ex_savings, unfolded d]
  note tr = range_filter_inclusive[OF ex_valid_query,
      where savingsData = ex_savings_rfc_start and item = ?r, unfolded d]
  have i: "all_strict_iso ex_moment (filteredData ex_moment ex_savings ''1'' ex_start ex_end)"
    by code_simp
  have fd: "filteredData ex_moment ex_savings ''1'' ex_start ex_end = ex_data"
    by code_simp
  have le: "ex_start \<le> ex_end"
    by (simp add: ex_start_def ex_end_def)
  have mem: "?a \<in> set ex_savings" "?b \<in> set ex_savings"
    by (simp_all add: ex_savings_def load_savings_def)
  have ids: "strict_eq (device_id ?a) (dev_id ex_device)" "strict_eq (device_id ?b) (dev_id ex_device)"
    by code_simp+
  have da: "itemDate_of ex_moment (device_timestamp ?a) = Some ex_start"
    by code_simp
  have db: "itemDate_of ex_moment (device_timestamp ?b) = Some ex_end"
    by code_simp
  have dc: "itemDate_of ex_moment (device_timestamp ?c) = Some (ex_end + 60000)"
    by code_simp
  from th[where item = ?a]
  have "returned_data (savings_handler ex_moment ex_devices ex_savings ex_query)
      = (if all_strict_iso ex_moment (filteredData ex_moment ex_savings ''1'' ex_start ex_end)
         then Some (filteredData ex_moment ex_savings ''1'' ex_start ex_end) else None)"
    by blast
  with i have "returned_data (savings_handler ex_moment ex_devices ex_savings ex_query)
      = Some (filteredData ex_moment ex_savings ''1'' ex_start ex_end)"
    by (simp only: if_True)
  then have r0: "returned_data (savings_handler ex_moment ex_devices ex_savings ex_query) = Some ex_data"
    by (simp only: fd)
  have "with_timestamp ?a \<in> set (filteredData ex_moment ex_savings ''1'' ex_start ex_end)"
    using th[where item = ?a] mem(1) ids(1) da le by blast
  then have a: "with_timestamp ?a \<in> set ex_data"
    by (simp only: fd)
  have "with_timestamp ?b \<in> set (filteredData ex_moment ex_savings ''1'' ex_start ex_end)"
    using th[where item = ?b] mem(2) ids(2) db le by blast
  then have b: "with_timestamp ?b \<in> set ex_data"
    by (simp only: fd)
  have "\<not> (\<exists>t. itemDate_of ex_moment (device_timestamp ?c) = Some t \<and> ex_start \<le> t \<and> t \<le> ex_end)"
    using dc by simp
  then have "with_timestamp ?c \<notin> set (filteredData ex_moment ex_savings ''1'' ex_start ex_end)"
    using th[where item = ?c] by blast
  then have c: "with_timestamp ?c \<notin> set ex_data"
    unfolding fd .
  have mr: "?r \<in> set ex_savings_rfc_start"
    by (simp add: ex_savings_rfc_start_def load_savings_def)
  have ir: "strict_eq (device_id ?r) (dev_id ex_device)"
    by code_simp
  have dr: "itemDate_of ex_moment (device_timestamp ?r) = Some ex_start"
    by code_simp
  have nr: "\<not> all_strict_iso ex_moment (filteredData ex_moment ex_savings_rfc_start ''1'' ex_start ex_end)"
    by code_simp
  have r1: "with_timestamp ?r \<in> set (filteredData ex_moment ex_savings_rfc_start ''1'' ex_start ex_end)"
    using tr mr ir dr le by blast
  from tr
  have "returned_data (savings_handler ex_moment ex_devices ex_savings_rfc_start ex_query)
      = (if all_strict_iso ex_moment (filteredData ex_moment ex_savings_rfc_start ''1'' ex_start ex_end)
         then Some (filteredData ex_moment ex_savings_rfc_start ''1'' ex_start ex_end) else None)"
    by blast
  with nr have r2: "returned_data (savings_handler ex_moment ex_devices ex_savings_rfc_start ex_query) = None"
    by (simp only: if_False)
  from r0 a b c r1 r2 show ?thesis by blast
qed

subsection \<open>C5: the totals\<close>

text \<open>
  C5 says that on every valid query \<open>totalCarbon\<close> is the sum of \<open>carbon_saved\<close> over
  exactly the returned records divided by 1000 and \<open>totalFuel\<close> the sum of
  \<open>fueld_saved\<close> over the same records, not converted. On a store that \<open>loadData\<close>
  built, that is what the handler answers, with the sums and the division of JavaScript
  (binary64, added from the left), whenever every record of the filtered set has a
  strict ISO-8601 timestamp; otherwise it answers no totals at all, by the defect of C1.
\<close>

theorem totals_are_sums:
  fixes M devices q dev startM endM rows
  defines "fd \<equiv> filteredData M (load_savings rows) (the (deviceId q)) startM endM"
  assumes "valid_query M devices q dev startM endM"
  shows "if all_strict_iso M fd
         then returned_data (savings_handler M devices (load_savings rows) q) = Some fd
           \<and> map_option totalCarbon (returned_totals (savings_handler M devices (load_savings rows) q))
               = Some (div1000 (js_sum (map carbon_saved fd)))
           \<and> map_option totalFuel (returned_totals (savings_handler M devices (load_savings rows) q))
               = Some (js_sum (map fueld_saved fd))
         else savings_handler M devices (load_savings rows) q
               = Inl (TypeError ''Assignment to constant variable.'')
           \<and> returned_totals (savings_handler M devices (load_savings rows) q) = None"
proof (cases "all_strict_iso M fd")
  case True
  have nn: "\<forall>item \<in> set fd. carbon_saved item \<noteq> NaN" "\<forall>item \<in> set fd. fueld_saved item \<noteq> NaN"
    using filteredData_loaded_not_NaN unfolding fd_def by blast+
  from True handler_all_iso[OF assms(2), of "load_savings rows"]
  show ?thesis
    using reduce_carbon_js_sum[OF nn(1)] reduce_fuel_js_sum[OF nn(2)]
    by (simp add: fd_def[symmetric] returned_data_def returned_totals_def)
next
  case False
  from False handler_not_all_iso[OF assms(2), of "load_savings rows"]
  show ?thesis
    by (simp add: fd_def[symmetric] returned_totals_def)
qed

text \<open>
  Two records that save 100 and 200 of carbon and 0.1 and 0.2 of fuel: \<open>totalCarbon\<close>
  is the binary64 quotient of 300 by 1000 and \<open>totalFuel\<close> is the binary64 sum of 0.1
  and 0.2, which is written 0.30000000000000004 and is not the number written 0.3. The
  failing input of C5: with the row \<open>1,15 Jun 2023 10:00:00 +0530,500,10\<close> the claim
  gives the totals 0.5 and 10, and the handler answers no totals.
\<close>

theorem totals_are_sums_witness:
  "map_option totalCarbon
      (returned_totals (savings_handler ex_moment ex_devices (load_savings ex_rows_tenths) ex_query))
     = Some (round64 (3 / 10))
   \<and> map_option totalFuel
      (returned_totals (savings_handler ex_moment ex_devices (load_savings ex_rows_tenths) ex_query))
     = Some (parseFloat ''0.30000000000000004'')
   \<and> parseFloat ''0.30000000000000004'' \<noteq> parseFloat ''0.3''
   \<and> returned_totals (savings_handler ex_moment ex_devices ex_savings_rfc ex_query) = None"
proof -
  let ?fd = "filteredData ex_moment (load_savings ex_rows_tenths) (the (deviceId ex_query)) ex_start ex_end"
  note t = totals_are_sums[OF ex_valid_query, of ex_rows_tenths]
  note r = totals_are_sums[OF ex_valid_query, of "[(''1'', ''15 Jun 2023 10:00:00 +0530'', ''500'', ''10'')]",
      folded ex_savings_rfc_def]
  have i: "all_strict_iso ex_moment ?fd"
    by code_simp
  have c: "div1000 (js_sum (map carbon_saved ?fd)) = round64 (3 / 10)"
    by code_simp
  have f: "js_sum (map fueld_saved ?fd) = parseFloat ''0.30000000000000004''"
    by code_simp
  have n: "parseFloat ''0.30000000000000004'' \<noteq> parseFloat ''0.3''"
    by code_simp
  have x: "\<not> all_strict_iso ex_moment
              (filteredData ex_moment ex_savings_rfc (the (deviceId ex_query)) ex_start ex_end)"
    by code_simp
  from t i have "map_option totalCarbon
      (returned_totals (savings_handler ex_moment ex_devices (load_savings ex_rows_tenths) ex_query))
     = Some (div1000 (js_sum (map carbon_saved ?fd)))
   \<and> map_option totalFuel
      (returned_totals (savings_handler ex_moment ex_devices (load_savings ex_rows_tenths) ex_query))
     = Some (js_sum (map fueld_saved ?fd))"
    by (simp only: if_True)
  then have a: "map_option totalCarbon
      (returned_totals (savings_handler ex_moment ex_devices (load_savings ex_rows_tenths) ex_query))
     = Some (round64 (3 / 10))
   \<and> map_option totalFuel
      (returned_totals (savings_handler ex_moment ex_devices (load_savings ex_rows_tenths) ex_query))
     = Some (parseFloat ''0.30000000000000004'')"
    by (simp only: c f)
  from r x have b: "returned_totals (savings_handler ex_moment ex_devices ex_savings_rfc ex_query) = None"
    by (simp add: returned_totals_def)
  from a n b show ?thesis by blast
qed

subsection \<open>C6: the savings values after load\<close>

text \<open>
  C6, as the code has it. After load, \<open>carbon_saved\<close> and \<open>fueld_saved\<close> of every
  stored record are never \<open>NaN\<close>: a value that does not parse is stored as 0, and a
  value that parses is stored as parsed, whatever its sign and whether finite or not.
\<close>

theorem savings_never_NaN:
  "num_of (transform_savings v ''carbon_saved'') \<noteq> NaN
   \<and> num_of (transform_savings v ''fueld_saved'') \<noteq> NaN
   \<and> (parseFloat (strip_quotes (js_trim v)) = NaN \<longrightarrow>
        transform_savings v ''carbon_saved'' = JNum (Num 0)
        \<and> transform_savings v ''fueld_saved'' = JNum (Num 0))
   \<and> (parseFloat (strip_quotes (js_trim v)) \<noteq> NaN \<longrightarrow>
        transform_savings v ''carbon_saved'' = JNum (parseFloat (strip_quotes (js_trim v)))
        \<and> transform_savings v ''fueld_saved'' = JNum (parseFloat (strip_quotes (js_trim v))))
   \<and> (\<forall>r \<in> set (load_savings rows). carbon_saved r \<noteq> NaN \<and> fueld_saved r \<noteq> NaN)"
  using savings_row_not_NaN
  by (auto simp: transform_savings_def or0_not_NaN or0_id load_savings_def)

text \<open>The field \<open>n/a\<close> is stored as 0, the quoted field \<open>"-5"\<close> as -5.\<close>

theorem savings_never_NaN_witness:
  "transform_savings ''n/a'' ''carbon_saved'' = JNum (Num 0)
   \<and> transform_savings '' \"-5\" '' ''carbon_saved'' = JNum (Num (- 5))"
proof -
  have a: "parseFloat (strip_quotes (js_trim ''n/a'')) = NaN"
    by code_simp
  have b: "parseFloat (strip_quotes (js_trim '' \"-5\" '')) = Num (- 5)"
    by code_simp
  show ?thesis
    using savings_never_NaN[of "''n/a''" "[]"] savings_never_NaN[of "'' \"-5\" ''" "[]"] a b
    by simp
qed

text \<open>
  C6 as it is stated fails: the row \<open>1,2023-06-15T10:00:00,-5,Infinity\<close> is stored
  with a negative \<open>carbon_saved\<close> and an infinite \<open>fueld_saved\<close>.
\<close>

theorem savings_values_counterexample:
  "\<not> finite_nonneg (carbon_saved (savings_row (''1'', ''2023-06-15T10:00:00'', ''-5'', ''Infinity'')))
   \<and> \<not> finite_nonneg (fueld_saved (savings_row (''1'', ''2023-06-15T10:00:00'', ''-5'', ''Infinity'')))"
  by code_simp

subsection \<open>C7: the timezone resolver\<close>

text \<open>
  C7. The timezone that \<open>loadData\<close> stores for a device row is the row's timezone field
  (as the \<open>transform\<close> callback hands it over) unchanged when the library knows it as a
  zone, and \<open>Asia/Kolkata\<close> otherwise: a total function of the field. So the stored
  timezones are, row by row, the fields so resolved, and, the library knowing
  \<open>Asia/Kolkata\<close>, the timezone of every loaded device is a zone the library knows.
\<close>

theorem device_timezone_resolved:
  "(tz_zone M (transform_devices z) \<longrightarrow>
      dev_timezone (device_row M (i, n, z)) = transform_devices z)
   \<and> (\<not> tz_zone M (transform_devices z) \<longrightarrow>
      dev_timezone (device_row M (i, n, z)) = ''Asia/Kolkata'')
   \<and> map dev_timezone (load_devices M rows)
       = map (\<lambda>row. if tz_zone M (transform_devices (snd (snd row)))
                     then transform_devices (snd (snd row)) else ''Asia/Kolkata'') rows
   \<and> (tz_zone M ''Asia/Kolkata'' \<longrightarrow>
        (\<forall>d \<in> set (load_devices M rows). tz_zone M (dev_timezone d)))"
proof -
  have r: "dev_timezone (device_row M row)
             = (if tz_zone M (transform_devices (snd (snd row)))
                then transform_devices (snd (snd row)) else ''Asia/Kolkata'')" for row
    by (cases row) (simp add: device_row.simps)
  have a: "map dev_timezone (load_devices M rows)
       = map (\<lambda>row. if tz_zone M (transform_devices (snd (snd row)))
                     then transform_devices (snd (snd row)) else ''Asia/Kolkata'') rows"
    by (simp add: load_devices_def r)
  have b: "tz_zone M ''Asia/Kolkata'' \<longrightarrow>
        (\<forall>d \<in> set (load_devices M rows). tz_zone M (dev_timezone d))"
    by (auto simp: load_devices_def r)
  from a b r[of "(i, n, z)"] show ?thesis by simp
qed

text \<open>
  Two device rows: the zone \<open>Asia/Tokyo\<close>, written with spaces and quotes around it, is
  kept; \<open>Mars/Phobos\<close> becomes \<open>Asia/Kolkata\<close>; both stored zones are known.
\<close>

theorem device_timezone_resolved_witness:
  "map dev_timezone (load_devices ex_moment ex_device_rows) = [''Asia/Tokyo'', ''Asia/Kolkata'']
   \<and> dev_timezone (device_row ex_moment (''7'', ''T'', '' \"Asia/Tokyo\" '')) = ''Asia/Tokyo''
   \<and> dev_timezone (device_row ex_moment (''x7'', ''B'', ''Mars/Phobos'')) = ''Asia/Kolkata''
   \<and> list_all (\<lambda>d. tz_zone ex_moment (dev_timezone d)) (load_devices ex_moment ex_device_rows)"
proof -
  note t = device_timezone_resolved[of ex_moment "'' \"Asia/Tokyo\" ''" "''7''" "''T''" ex_device_rows]
  note p = device_timezone_resolved[of ex_moment "''Mars/Phobos''" "''x7''" "''B''" ex_device_rows]
  have k: "tz_zone ex_moment ''Asia/Kolkata''"
    by code_simp
  have z: "transform_devices '' \"Asia/Tokyo\" '' = ''Asia/Tokyo''
           \<and> tz_zone ex_moment ''Asia/Tokyo''"
    by code_simp
  have m: "transform_devices ''Mars/Phobos'' = ''Mars/Phobos''
           \<and> \<not> tz_zone ex_moment ''Mars/Phobos''"
    by code_simp
  have a: "map dev_timezone (load_devices ex_moment ex_device_rows) = [''Asia/Tokyo'', ''Asia/Kolkata'']"
    using t z m by (simp add: ex_device_rows_def)
  have b: "dev_timezone (device_row ex_moment (''7'', ''T'', '' \"Asia/Tokyo\" '')) = ''Asia/Tokyo''"
    using t z by simp
  have c: "dev_timezone (device_row ex_moment (''x7'', ''B'', ''Mars/Phobos'')) = ''Asia/Kolkata''"
    using p m by simp
  have d: "list_all (\<lambda>d. tz_zone ex_moment (dev_timezone d)) (load_devices ex_moment ex_device_rows)"
    using t k by (simp add: list_all_iff)
  from a b c d show ?thesis by blast
qed

subsection \<open>C8: a missing parameter\<close>

text \<open>
  C8. When any of \<open>deviceId\<close>, \<open>startDateTime\<close>, \<open>endDateTime\<close> is missing, the
  answer is status 400 with the body
  \<open>{error: "deviceId, startDateTime, and endDateTime are required"}\<close>, whatever the
  devices, the store and the other parameters are: the check comes before the device
  lookup and the validation of the range.
\<close>

theorem missing_param_400:
  "missing (deviceId q) \<or> missing (startDateTime q) \<or> missing (endDateTime q) \<Longrightarrow>
     savings_handler M devices savingsData q =
       Inr \<lparr> status = 400,
             body = ErrorBody ''deviceId, startDateTime, and endDateTime are required'' \<rparr>"
  by (simp add: savings_handler_def)

text \<open>No \<open>deviceId\<close>, a start that is no date, an empty end, and no device at all.\<close>

theorem missing_param_400_witness:
  "savings_handler ex_moment [] []
     \<lparr> deviceId = None, startDateTime = Some ''yesterday'', endDateTime = Some '''' \<rparr> =
   Inr \<lparr> status = 400,
         body = ErrorBody ''deviceId, startDateTime, and endDateTime are required'' \<rparr>"
  using missing_param_400[of
      "\<lparr> deviceId = None, startDateTime = Some ''yesterday'', endDateTime = Some '''' \<rparr>"
      ex_moment "[]" "[]"]
  by (simp add: missing_def)

subsection \<open>C9: the device lookup goes through \<open>parseInt\<close>\<close>

text \<open>
  C9, as the code has it. The lookup compares the stored id with \<open>parseInt\<close> of the
  \<open>deviceId\<close> string. Characters after a decimal number are ignored (unless they turn
  a lone \<open>0\<close> into the prefix \<open>0x\<close>): such a \<open>deviceId\<close> is answered as the number
  alone is, so \<open>1abc\<close> finds the first device whose id is 1 and is answered with that
  device's records. A \<open>deviceId\<close> that has no digit after the white space and the one
  sign that \<open>parseInt\<close> skips finds no device. A device whose id is \<open>NaN\<close>, as a row
  with an id that is not a number is stored, is never found: the answer is the one the
  devices without it give. In both cases, the three parameters being present, the
  answer is 404.
\<close>

theorem device_lookup_parseInt:
  "(all_digits ds \<and> \<not> is_digit c \<and> \<not> (ds = ''0'' \<and> (c = CHR ''x'' \<or> c = CHR ''X'')) \<longrightarrow>
      find_device devices (ds @ c # rest) = find_device devices ds
      \<and> (deviceId q = Some (ds @ c # rest) \<longrightarrow>
           savings_handler M devices savingsData q
             = savings_handler M devices savingsData (q\<lparr>deviceId := Some ds\<rparr>))
      \<and> (deviceId q = Some (ds @ c # rest)
          \<and> valid_query M devices (q\<lparr>deviceId := Some ds\<rparr>) dev startM endM \<longrightarrow>
           returned_data (savings_handler M devices savingsData q)
             = (if all_strict_iso M (filteredData M savingsData ds startM endM)
                then Some (filteredData M savingsData ds startM endM) else None)))
   \<and> find_device devices ''1abc'' = find (\<lambda>d. dev_id d = Num 1) devices
   \<and> (no_leading_digit did \<longrightarrow> find_device devices did = None)
   \<and> (dev_id d = NaN \<longrightarrow> find_device devices did \<noteq> Some d)
   \<and> (parseInt (transform_devices i) = NaN \<longrightarrow>
        dev_id (device_row M (i, n, z)) = NaN
        \<and> find_device devices did \<noteq> Some (device_row M (i, n, z)))
   \<and> savings_handler M devices savingsData q
       = savings_handler M (filter (\<lambda>d. dev_id d \<noteq> NaN) devices) savingsData q
   \<and> (\<not> missing (deviceId q) \<and> \<not> missing (startDateTime q) \<and> \<not> missing (endDateTime q)
        \<and> (no_leading_digit (the (deviceId q)) \<or> (\<forall>d \<in> set devices. dev_id d = NaN)) \<longrightarrow>
      savings_handler M devices savingsData q =
        Inr \<lparr> status = 404, body = ErrorBody ''Device not found'' \<rparr>)"
proof -
  have p1: "parseInt ''1abc'' = Num 1"
    by code_simp
  have a: "all_digits ds \<and> \<not> is_digit c \<and> \<not> (ds = ''0'' \<and> (c = CHR ''x'' \<or> c = CHR ''X'')) \<longrightarrow>
      find_device devices (ds @ c # rest) = find_device devices ds
      \<and> (deviceId q = Some (ds @ c # rest) \<longrightarrow>
           savings_handler M devices savingsData q
             = savings_handler M devices savingsData (q\<lparr>deviceId := Some ds\<rparr>))
      \<and> (deviceId q = Some (ds @ c # rest)
          \<and> valid_query M devices (q\<lparr>deviceId := Some ds\<rparr>) dev startM endM \<longrightarrow>
           returned_data (savings_handler M devices savingsData q)
             = (if all_strict_iso M (filteredData M savingsData ds startM endM)
                then Some (filteredData M savingsData ds startM endM) else None))"
  proof (intro impI)
    assume h: "all_digits ds \<and> \<not> is_digit c \<and> \<not> (ds = ''0'' \<and> (c = CHR ''x'' \<or> c = CHR ''X''))"
    then have pe: "parseInt (ds @ c # rest) = parseInt ds"
      by (simp add: parseInt_trailing)
    from h have ne: "ds \<noteq> []"
      by (auto simp: all_digits_def)
    have f: "find_device devices (ds @ c # rest) = find_device devices ds"
      by (simp add: find_device_def pe)
    have e: "savings_handler M devices savingsData q
             = savings_handler M devices savingsData (q\<lparr>deviceId := Some ds\<rparr>)"
      if "deviceId q = Some (ds @ c # rest)"
    proof -
      from that have "q = q\<lparr>deviceId := Some (ds @ c # rest)\<rparr>"
        by simp
      then have "savings_handler M devices savingsData q
                   = savings_handler M devices savingsData (q\<lparr>deviceId := Some (ds @ c # rest)\<rparr>)"
        by simp
      also have "\<dots> = savings_handler M devices savingsData (q\<lparr>deviceId := Some ds\<rparr>)"
        using pe ne by (intro handler_parseInt_cong) simp_all
      finally show ?thesis .
    qed
    have r: "returned_data (savings_handler M devices savingsData q)
             = (if all_strict_iso M (filteredData M savingsData ds startM endM)
                then Some (filteredData M savingsData ds startM endM) else None)"
      if "deviceId q = Some (ds @ c # rest)"
        and "valid_query M devices (q\<lparr>deviceId := Some ds\<rparr>) dev startM endM"
      using returned_data_valid[OF that(2), of savingsData] e[OF that(1)] by simp
    from f e r show "find_device devices (ds @ c # rest) = find_device devices ds
      \<and> (deviceId q = Some (ds @ c # rest) \<longrightarrow>
           savings_handler M devices savingsData q
             = savings_handler M devices savingsData (q\<lparr>deviceId := Some ds\<rparr>))
      \<and> (deviceId q = Some (ds @ c # rest)
          \<and> valid_query M devices (q\<lparr>deviceId := Some ds\<rparr>) dev startM endM \<longrightarrow>
           returned_data (savings_handler M devices savingsData q)
             = (if all_strict_iso M (filteredData M savingsData ds startM endM)
                then Some (filteredData M savingsData ds startM endM) else None))"
      by blast
  qed
  have b: "find_device devices ''1abc'' = find (\<lambda>d. dev_id d = Num 1) devices"
    unfolding find_device_def p1 by (rule arg_cong2[where f=find]) (auto simp: strict_eq_def)
  have c: "no_leading_digit did \<longrightarrow> find_device devices did = None"
    by (auto simp: find_device_None_NaN parseInt_no_leading_digit)
  have d: "dev_id d = NaN \<longrightarrow> find_device devices did \<noteq> Some d"
    using find_device_NaN by blast
  have e: "parseInt (transform_devices i) = NaN \<longrightarrow>
        dev_id (device_row M (i, n, z)) = NaN
        \<and> find_device devices did \<noteq> Some (device_row M (i, n, z))"
    using find_device_NaN[of devices did "device_row M (i, n, z)"]
    by (auto simp: device_row.simps)
  have g: "savings_handler M devices savingsData q
       = savings_handler M (filter (\<lambda>d. dev_id d \<noteq> NaN) devices) savingsData q"
    by (rule handler_find_device) (simp add: find_device_drop_NaN)
  have f: "\<not> missing (deviceId q) \<and> \<not> missing (startDateTime q) \<and> \<not> missing (endDateTime q)
        \<and> (no_leading_digit (the (deviceId q)) \<or> (\<forall>d \<in> set devices. dev_id d = NaN)) \<longrightarrow>
      savings_handler M devices savingsData q =
        Inr \<lparr> status = 404, body = ErrorBody ''Device not found'' \<rparr>"
    using handler_404 find_device_all_NaN find_device_None_NaN parseInt_no_leading_digit by blast
  from a b c d e g f show ?thesis by blast
qed

text \<open>
  With the two example devices: the query for \<open>1abc\<close> finds device 1 and is answered
  with the record of device 1, \<open>abc\<close> is answered 404, and the device of the row with
  id \<open>x7\<close> is not found under \<open>x7\<close>.
\<close>

theorem device_lookup_parseInt_witness:
  "find_device ex_devices ''1abc'' = Some ex_device
   \<and> returned_data (savings_handler ex_moment ex_devices ex_savings_edge ex_query_1abc)
       = Some (map with_timestamp ex_savings_edge)
   \<and> savings_handler ex_moment ex_devices ex_savings ex_query_abc =
       Inr \<lparr> status = 404, body = ErrorBody ''Device not found'' \<rparr>
   \<and> find_device ex_devices ''x7'' \<noteq> Some (device_row ex_moment (''x7'', ''B'', ''Mars/Phobos''))"
proof -
  note th = device_lookup_parseInt[where ds = "''1''" and c = "CHR ''a''" and rest = "''bc''"
      and devices = ex_devices and did = "''x7''" and i = "''x7''" and n = "''B''"
      and z = "''Mars/Phobos''" and M = ex_moment]
  note t1 = th[where q = ex_query_1abc and savingsData = ex_savings_edge and dev = ex_device
      and startM = ex_start and endM = ex_end]
  note t2 = th[where q = ex_query_abc and savingsData = ex_savings]
  have h1: "all_digits ''1'' \<and> \<not> is_digit CHR ''a''
              \<and> \<not> (''1'' = ''0'' \<and> (CHR ''a'' = CHR ''x'' \<or> CHR ''a'' = CHR ''X''))"
    by code_simp
  have h2: "find_device ex_devices ''1'' = Some ex_device"
    by code_simp
  have h3: "parseInt (transform_devices ''x7'') = NaN"
    by code_simp
  have h4: "\<not> missing (deviceId ex_query_abc) \<and> \<not> missing (startDateTime ex_query_abc)
              \<and> \<not> missing (endDateTime ex_query_abc) \<and> no_leading_digit (the (deviceId ex_query_abc))"
    by code_simp
  have h5: "deviceId ex_query_1abc = Some (''1'' @ CHR ''a'' # ''bc'')"
    by (simp add: ex_query_1abc_def)
  have h5': "ex_query_1abc\<lparr>deviceId := Some ''1''\<rparr> = ex_query"
    by (simp add: ex_query_1abc_def ex_query_def)
  have v: "valid_query ex_moment ex_devices (ex_query_1abc\<lparr>deviceId := Some ''1''\<rparr>)
             ex_device ex_start ex_end"
    unfolding h5' by (rule ex_valid_query)
  have i6: "all_strict_iso ex_moment (filteredData ex_moment ex_savings_edge ''1'' ex_start ex_end)"
    by code_simp
  have h6: "filteredData ex_moment ex_savings_edge ''1'' ex_start ex_end
              = map with_timestamp ex_savings_edge"
    by code_simp
  have s: "''1'' @ CHR ''a'' # ''bc'' = ''1abc''"
    by simp
  from t1 h1 have "find_device ex_devices (''1'' @ CHR ''a'' # ''bc'') = find_device ex_devices ''1''"
    by blast
  then have a: "find_device ex_devices ''1abc'' = Some ex_device"
    by (simp only: s h2)
  from t1 h1 h5 v
  have "returned_data (savings_handler ex_moment ex_devices ex_savings_edge ex_query_1abc)
      = (if all_strict_iso ex_moment (filteredData ex_moment ex_savings_edge ''1'' ex_start ex_end)
         then Some (filteredData ex_moment ex_savings_edge ''1'' ex_start ex_end) else None)"
    by blast
  with i6 have "returned_data (savings_handler ex_moment ex_devices ex_savings_edge ex_query_1abc)
      = Some (filteredData ex_moment ex_savings_edge ''1'' ex_start ex_end)"
    by (simp only: if_True)
  then have r: "returned_data (savings_handler ex_moment ex_devices ex_savings_edge ex_query_1abc)
       = Some (map with_timestamp ex_savings_edge)"
    by (simp only: h6)
  from t2 h4 have b: "savings_handler ex_moment ex_devices ex_savings ex_query_abc =
       Inr \<lparr> status = 404, body = ErrorBody ''Device not found'' \<rparr>"
    by blast
  from t2 h3 have c: "find_device ex_devices ''x7'' \<noteq> Some (device_row ex_moment (''x7'', ''B'', ''Mars/Phobos''))"
    by blast
  from a r b c show ?thesis by blast
qed

text \<open>
  C9 as it is stated fails when ``no leading digits'' is read to the letter: the
  \<open>deviceId\<close> made of a space and \<open>1\<close> (\<open>deviceId=%201\<close> in the query) does not
  start with a digit, and it finds device 1 and is answered with its record.
\<close>

theorem device_lookup_counterexample:
  "first_char_no_digit '' 1''
   \<and> find_device ex_devices '' 1'' = Some ex_device
   \<and> returned_data (savings_handler ex_moment ex_devices ex_savings_edge ex_query_space)
       = Some (map with_timestamp ex_savings_edge)"
  by code_simp

subsection \<open>C10: a range whose start is after its end\<close>

text \<open>
  C10. On a valid device and two valid dates with the start strictly after the end, the
  query is answered with status 200, an empty list of records, \<open>totalCarbon\<close>,
  \<open>totalFuel\<close>, \<open>monthlyCarbon\<close> and \<open>monthlyFuel\<close> all 0, and \<open>lastMonth\<close>
  computed from \<open>endDateTime\<close>.
\<close>

theorem reversed_range_empty_200:
  assumes "valid_query M devices q dev startM endM" and "endM < startM"
  shows "savings_handler M devices savingsData q =
     Inr \<lparr> status = 200,
           body = SavingsBody []
             \<lparr> totalCarbon = Num 0, totalFuel = Num 0, monthlyCarbon = Num 0, monthlyFuel = Num 0,
               lastMonth = format_YYYY_MM M (Zone (dev_timezone dev))
                             (startOf_month M (Zone (dev_timezone dev)) endM) \<rparr> \<rparr>"
  using assms(2)
  by (simp add: savings_handler_valid[OF assms(1)] filteredData_empty reduce_carbon_def
      reduce_fuel_def)

text \<open>June 2023 asked backwards, from its last minute to its first.\<close>

theorem reversed_range_empty_200_witness:
  "savings_handler ex_moment ex_devices ex_savings ex_query_reversed =
   Inr \<lparr> status = 200,
         body = SavingsBody []
           \<lparr> totalCarbon = Num 0, totalFuel = Num 0, monthlyCarbon = Num 0, monthlyFuel = Num 0,
             lastMonth = ''2023-06'' \<rparr> \<rparr>"
proof -
  have v: "valid_query ex_moment ex_devices ex_query_reversed ex_device ex_end ex_start"
    by code_simp
  have lt: "ex_start < ex_end"
    by (simp add: ex_start_def ex_end_def)
  have m: "format_YYYY_MM ex_moment (Zone (dev_timezone ex_device))
             (startOf_month ex_moment (Zone (dev_timezone ex_device)) ex_start) = ''2023-06''"
    by code_simp
  show ?thesis
    using reversed_range_empty_200[OF v lt, of ex_savings] unfolding m .
qed

end
